theory Spec2Isabelle
  imports Complex_Main
begin

section \<open>Python values, exceptions and strings\<close>

text \<open>
  The engine of \<^verbatim>\<open>knowledge_graph_rag_comparison.py\<close> works on untyped data: the records
  a graph query returns and the object \<^verbatim>\<open>json.loads\<close> builds from the judge's reply.
  They are modelled by one datatype of Python values. A dictionary keeps its keys in
  insertion order, so it is an association list. Floats are idealised as rationals.
\<close>

datatype val =
    VNone
  | VBool bool
  | VInt int
  | VFloat rat
  | VStr string
  | VList "val list"
  | VDict "(string \<times> val) list"

type_synonym row = "(string \<times> val) list"

text \<open>An exception is its class and its message, the text \<^verbatim>\<open>str(e)\<close> gives.\<close>

datatype exn =
    KeyError string
  | TypeError string
  | AttributeError string
  | ValueError string
  | ZeroDivisionError string
  | ServiceError string

fun str_exn :: "exn \<Rightarrow> string" where
  "str_exn (KeyError k) = [CHR 0x27] @ k @ [CHR 0x27]"
| "str_exn (TypeError m) = m"
| "str_exn (AttributeError m) = m"
| "str_exn (ValueError m) = m"
| "str_exn (ZeroDivisionError m) = m"
| "str_exn (ServiceError m) = m"

definition bindE :: "exn + 'a \<Rightarrow> ('a \<Rightarrow> exn + 'b) \<Rightarrow> exn + 'b" where
  "bindE m f = (case m of Inl e \<Rightarrow> Inl e | Inr x \<Rightarrow> f x)"

text \<open>Truthiness, as \<^verbatim>\<open>if value:\<close> tests it.\<close>

fun truthy :: "val \<Rightarrow> bool" where
  "truthy VNone = False"
| "truthy (VBool b) = b"
| "truthy (VInt i) = (i \<noteq> 0)"
| "truthy (VFloat q) = (q \<noteq> 0)"
| "truthy (VStr s) = (s \<noteq> [])"
| "truthy (VList xs) = (xs \<noteq> [])"
| "truthy (VDict kvs) = (kvs \<noteq> [])"

fun type_name :: "val \<Rightarrow> string" where
  "type_name VNone = ''NoneType''"
| "type_name (VBool b) = ''bool''"
| "type_name (VInt i) = ''int''"
| "type_name (VFloat q) = ''float''"
| "type_name (VStr s) = ''str''"
| "type_name (VList xs) = ''list''"
| "type_name (VDict kvs) = ''dict''"

text \<open>\<^verbatim>\<open>record[key]\<close> on a dictionary: a missing key raises.\<close>

definition getitem :: "row \<Rightarrow> string \<Rightarrow> exn + val" where
  "getitem r k = (case map_of r k of None \<Rightarrow> Inl (KeyError k) | Some v \<Rightarrow> Inr v)"

subsection \<open>String operations\<close>

text \<open>
  A string is its sequence of bytes. \<open>strip\<close>, \<open>split_ws\<close> and \<open>lower\<close> treat the ASCII
  range as Python does: the whitespace characters are the ten ASCII ones and only the
  letters \<^verbatim>\<open>A\<close> to \<^verbatim>\<open>Z\<close> are lower-cased. Whitespace and letters outside ASCII, which
  \<^verbatim>\<open>str.strip\<close>, \<^verbatim>\<open>str.split\<close> and \<^verbatim>\<open>str.lower\<close> also handle, are left as they are.
\<close>

definition is_space :: "char \<Rightarrow> bool" where
  "is_space c = (c \<in> set [CHR 0x09, CHR 0x0A, CHR 0x0B, CHR 0x0C, CHR 0x0D,
                          CHR 0x1C, CHR 0x1D, CHR 0x1E, CHR 0x1F, CHR 0x20])"

definition strip :: "string \<Rightarrow> string" where
  "strip s = rev (dropWhile is_space (rev (dropWhile is_space s)))"

definition startswith :: "string \<Rightarrow> string \<Rightarrow> bool" where
  "startswith s p = (take (length p) s = p)"

text \<open>
  \<open>find_sub sep s\<close> cuts \<open>s\<close> at the first occurrence of \<open>sep\<close>: the text before it and
  the text after it. \<^verbatim>\<open>sep in s\<close> is \<open>find_sub sep s \<noteq> None\<close>.
\<close>

fun find_sub :: "string \<Rightarrow> string \<Rightarrow> (string \<times> string) option" where
  "find_sub sep [] = (if sep = [] then Some ([], []) else None)"
| "find_sub sep (c # cs) =
     (if startswith (c # cs) sep then Some ([], drop (length sep) (c # cs))
      else (case find_sub sep cs of None \<Rightarrow> None | Some (b, a) \<Rightarrow> Some (c # b, a)))"

definition contains :: "string \<Rightarrow> string \<Rightarrow> bool" where
  "contains s sep = (find_sub sep s \<noteq> None)"

lemma find_sub_length:
  "find_sub sep s = Some (b, a) \<Longrightarrow> length b + length sep + length a = length s"
proof (induction s arbitrary: b a)
  case Nil
  then show ?case by (auto split: if_splits)
next
  case (Cons c cs)
  show ?case
  proof (cases "startswith (c # cs) sep")
    case True
    then have "length (take (length sep) (c # cs)) = length sep"
      unfolding startswith_def by simp
    then have "length sep \<le> length (c # cs)"
      by simp
    with True Cons.prems show ?thesis by auto
  next
    case False
    with Cons.prems obtain b' where "find_sub sep cs = Some (b', a)" and "b = c # b'"
      by (auto split: option.splits)
    with Cons.IH show ?thesis by fastforce
  qed
qed

text \<open>\<^verbatim>\<open>s.split(sep)\<close> for a non-empty separator, and \<^verbatim>\<open>s.split(sep, 1)\<close>.\<close>

function py_split :: "string \<Rightarrow> string \<Rightarrow> string list" where
  "py_split sep s =
     (if sep = [] then [s]
      else (case find_sub sep s of
              None \<Rightarrow> [s]
            | Some ba \<Rightarrow> fst ba # py_split sep (snd ba)))"
  by pat_completeness auto
termination
proof (relation "measure (\<lambda>(sep, s). length s)")
  show "wf (measure (\<lambda>(sep, s). length s))" by simp
next
  fix sep s :: string and ba
  assume "sep \<noteq> []" and "find_sub sep s = Some ba"
  then have "length (snd ba) < length s"
    using find_sub_length [of sep s "fst ba" "snd ba"] by (cases sep) auto
  then show "((sep, snd ba), (sep, s)) \<in> measure (\<lambda>(sep, s). length s)" by simp
qed

declare py_split.simps [simp del]

definition split_once :: "string \<Rightarrow> string \<Rightarrow> string list" where
  "split_once sep s = (case find_sub sep s of None \<Rightarrow> [s] | Some (b, a) \<Rightarrow> [b, a])"

fun join_str :: "string \<Rightarrow> string list \<Rightarrow> string" where
  "join_str sep [] = []"
| "join_str sep [x] = x"
| "join_str sep (x # y # ys) = x @ sep @ join_str sep (y # ys)"

fun str_nat :: "nat \<Rightarrow> string" where
  "str_nat n =
     (if n < 10 then [char_of (48 + n)]
      else str_nat (n div 10) @ [char_of (48 + n mod 10)])"

declare str_nat.simps [simp del]

definition str_int :: "int \<Rightarrow> string" where
  "str_int i = (if i < 0 then ''-'' @ str_nat (nat (- i)) else str_nat (nat i))"

definition ascii_lower :: "char \<Rightarrow> char" where
  "ascii_lower c =
     (if 65 \<le> (of_char c :: nat) \<and> (of_char c :: nat) \<le> 90
      then char_of ((of_char c :: nat) + 32) else c)"

definition lower :: "string \<Rightarrow> string" where
  "lower s = map ascii_lower s"

text \<open>\<^verbatim>\<open>s.split()\<close>: the maximal runs of non-whitespace characters.\<close>

fun split_ws_acc :: "string \<Rightarrow> string \<Rightarrow> string list" where
  "split_ws_acc w [] = (if w = [] then [] else [rev w])"
| "split_ws_acc w (c # cs) =
     (if is_space c then (if w = [] then split_ws_acc [] cs else rev w # split_ws_acc [] cs)
      else split_ws_acc (c # w) cs)"

definition split_ws :: "string \<Rightarrow> string list" where
  "split_ws s = split_ws_acc [] s"

section \<open>The external services and the Python runtime\<close>

text \<open>
  The Graph Query Service and the Completion Service are opaque. A request is recorded by
  the call site that builds it and the values interpolated into its fixed query or prompt
  template; the template text itself is a constant of the call site and is not repeated.
  Each service is an arbitrary function of the request and of the number of service calls
  made before it, so that two equal requests in one run may be answered differently (the
  prompts of the source also carry elapsed wall-clock times, which are not modelled).
\<close>

text \<open>
  The graph queries of the source, each with its parameters: \<^verbatim>\<open>cypher_query\<close> of
  \<^verbatim>\<open>retrieve_context\<close> (keywords, limit) and of \<^verbatim>\<open>retrieve_with_vector_search\<close> (query
  embedding, limit), \<^verbatim>\<open>sample_query\<close> of \<^verbatim>\<open>get_graph_schema\<close>, the query text the
  translator generated, and \<^verbatim>\<open>graph_query\<close> and \<^verbatim>\<open>article_query\<close> of the extractor (names).
\<close>

datatype graph_request =
    KeywordQuery "string list" nat
  | VectorQuery "rat list" nat
  | SchemaSampleQuery
  | GeneratedCypher string
  | ResearcherLookup "string list"
  | ArticleLookup "string list"

text \<open>
  The prompts of the source, each with the values its template interpolates:
  \<^verbatim>\<open>generate_answer\<close> (question, context), \<^verbatim>\<open>text_to_cypher\<close> (schema, question),
  \<^verbatim>\<open>explanation_prompt\<close> (question, query, formatted results) and \<^verbatim>\<open>judgment_prompt\<close>
  (question, RAG answer, number of sources, query, KG answer, result count, the first 500
  characters of the formatted results). A request also carries the sampling parameters.
\<close>

datatype prompt =
    AnswerPrompt string string
  | CypherPrompt string string
  | ExplanationPrompt string string string
  | JudgmentPrompt string string nat string string nat string

record chat_request =
  prompt_of :: prompt
  temperature :: rat
  max_tokens :: nat
  seed :: "nat option"

datatype call =
    GraphCall graph_request
  | ChatCall chat_request
  | EmbedCall string

text \<open>
  \<open>repr_other\<close>, \<open>fixed_repr\<close>, \<open>set_order\<close> and \<open>json_loads\<close> are the parts of the
  Python runtime the engine relies on and that are taken as given: \<^verbatim>\<open>str\<close> of a float,
  list or dictionary, the \<^verbatim>\<open>:.nf\<close> rendering of a number, the iteration order of a set of
  strings (given the sequence of insertions) and the JSON parser (\<open>None\<close> is
  \<^verbatim>\<open>JSONDecodeError\<close>).
\<close>

record env =
  graph_service :: "nat \<Rightarrow> graph_request \<Rightarrow> exn + row list"
  completion_service :: "nat \<Rightarrow> chat_request \<Rightarrow> exn + string"
  embedding_service :: "nat \<Rightarrow> string \<Rightarrow> exn + rat list"
  repr_other :: "val \<Rightarrow> string"
  fixed_repr :: "nat \<Rightarrow> rat \<Rightarrow> string"
  set_order :: "string list \<Rightarrow> string list"
  json_loads :: "string \<Rightarrow> val option"

text \<open>
  A method of the engine takes the log of the service calls made so far and returns its
  result, or the exception it raises, with the extended log.
\<close>

type_synonym 'a prog = "call list \<Rightarrow> (exn + 'a) \<times> call list"

definition returnP :: "'a \<Rightarrow> 'a prog" where
  "returnP x = (\<lambda>cs. (Inr x, cs))"

definition liftP :: "exn + 'a \<Rightarrow> 'a prog" where
  "liftP r = (\<lambda>cs. (r, cs))"

definition bindP :: "'a prog \<Rightarrow> ('a \<Rightarrow> 'b prog) \<Rightarrow> 'b prog" where
  "bindP m f = (\<lambda>cs. case m cs of (Inl e, cs') \<Rightarrow> (Inl e, cs') | (Inr x, cs') \<Rightarrow> f x cs')"

definition catchP :: "'a prog \<Rightarrow> (exn \<Rightarrow> 'a prog) \<Rightarrow> 'a prog" where
  "catchP m h = (\<lambda>cs. case m cs of (Inl e, cs') \<Rightarrow> h e cs' | (Inr x, cs') \<Rightarrow> (Inr x, cs'))"

definition execute_query :: "env \<Rightarrow> graph_request \<Rightarrow> row list prog" where
  "execute_query E q = (\<lambda>cs. (graph_service E (length cs) q, cs @ [GraphCall q]))"

definition chat_completion :: "env \<Rightarrow> chat_request \<Rightarrow> string prog" where
  "chat_completion E q = (\<lambda>cs. (completion_service E (length cs) q, cs @ [ChatCall q]))"

definition get_embedding :: "env \<Rightarrow> string \<Rightarrow> rat list prog" where
  "get_embedding E t = (\<lambda>cs. (embedding_service E (length cs) t, cs @ [EmbedCall t]))"

definition chat_calls :: "call list \<Rightarrow> chat_request list" where
  "chat_calls cs = concat (map (\<lambda>c. case c of ChatCall q \<Rightarrow> [q] | _ \<Rightarrow> []) cs)"

text \<open>\<^verbatim>\<open>str(value)\<close> and the f-string conversion \<^verbatim>\<open>{value:.nf}\<close>.\<close>

definition py_str :: "env \<Rightarrow> val \<Rightarrow> string" where
  "py_str E v =
     (case v of
        VStr s \<Rightarrow> s
      | VNone \<Rightarrow> ''None''
      | VBool b \<Rightarrow> (if b then ''True'' else ''False'')
      | VInt i \<Rightarrow> str_int i
      | _ \<Rightarrow> repr_other E v)"

definition format_f :: "env \<Rightarrow> nat \<Rightarrow> val \<Rightarrow> exn + string" where
  "format_f E d v =
     (case v of
        VFloat q \<Rightarrow> Inr (fixed_repr E d q)
      | VInt i \<Rightarrow> Inr (fixed_repr E d (of_int i))
      | VBool b \<Rightarrow> Inr (fixed_repr E d (if b then 1 else 0))
      | VStr s \<Rightarrow> Inl (ValueError (''Unknown format code 'f' for object of type 'str'' @ [CHR 0x27]))
      | _ \<Rightarrow> Inl (TypeError (''unsupported format string passed to '' @ type_name v @ ''.__format__'')))"

text \<open>\<^verbatim>\<open>sep.join(value)\<close>: the value must be an iterable of strings.\<close>

fun join_items :: "nat \<Rightarrow> val list \<Rightarrow> exn + string list" where
  "join_items i [] = Inr []"
| "join_items i (VStr s # vs) = bindE (join_items (Suc i) vs) (\<lambda>ss. Inr (s # ss))"
| "join_items i (v # vs) =
     Inl (TypeError (''sequence item '' @ str_nat i @ '': expected str instance, ''
                     @ type_name v @ '' found''))"

definition py_join :: "string \<Rightarrow> val \<Rightarrow> exn + string" where
  "py_join sep v =
     (case v of
        VList vs \<Rightarrow> bindE (join_items 0 vs) (\<lambda>ss. Inr (join_str sep ss))
      | VStr s \<Rightarrow> Inr (join_str sep (map (\<lambda>c. [c]) s))
      | VDict kvs \<Rightarrow> Inr (join_str sep (map fst kvs))
      | _ \<Rightarrow> Inl (TypeError ''can only join an iterable''))"

section \<open>Retrieval and answer generation\<close>

text \<open>One rendered document of \<^verbatim>\<open>retrieve_context\<close> (keyword strategy).\<close>

definition render_keyword :: "env \<Rightarrow> nat \<Rightarrow> row \<Rightarrow> exn + string" where
  "render_keyword E i r =
     bindE (getitem r ''title'') (\<lambda>title.
     bindE (getitem r ''authors'') (\<lambda>authors.
     bindE (if truthy authors then py_join '', '' authors else Inr ''N/A'') (\<lambda>authors_text.
     bindE (getitem r ''topics'') (\<lambda>topics.
     bindE (if truthy topics then py_join '', '' topics else Inr ''N/A'') (\<lambda>topics_text.
     bindE (getitem r ''abstract'') (\<lambda>abstract.
     bindE (getitem r ''date'') (\<lambda>date.
       Inr (''\<newline>Article '' @ str_nat i @ '': '' @ py_str E title
            @ ''\<newline>Authors: '' @ authors_text
            @ ''\<newline>Topics: '' @ topics_text
            @ ''\<newline>Abstract: '' @ py_str E abstract
            @ ''\<newline>Date: '' @ py_str E date
            @ ''\<newline>---''))))))))"

text \<open>One rendered document of \<^verbatim>\<open>retrieve_with_vector_search\<close>.\<close>

definition render_vector :: "env \<Rightarrow> nat \<Rightarrow> row \<Rightarrow> exn + string" where
  "render_vector E i r =
     bindE (getitem r ''similarity'') (\<lambda>similarity.
     bindE (format_f E 3 similarity) (\<lambda>similarity_text.
     bindE (getitem r ''title'') (\<lambda>title.
     bindE (getitem r ''authors'') (\<lambda>authors.
     bindE (py_join '', '' authors) (\<lambda>authors_text.
     bindE (getitem r ''topics'') (\<lambda>topics.
     bindE (py_join '', '' topics) (\<lambda>topics_text.
     bindE (getitem r ''abstract'') (\<lambda>abstract.
       Inr (''\<newline>Article '' @ str_nat i @ '' (Similarity: '' @ similarity_text @ ''):''
            @ ''\<newline>Title: '' @ py_str E title
            @ ''\<newline>Authors: '' @ authors_text
            @ ''\<newline>Topics: '' @ topics_text
            @ ''\<newline>Abstract: '' @ py_str E abstract
            @ ''\<newline>---'')))))))))"

text \<open>The loop \<^verbatim>\<open>for i, record in enumerate(results, 1)\<close> that fills \<^verbatim>\<open>context_parts\<close>.\<close>

fun context_parts :: "(nat \<Rightarrow> row \<Rightarrow> exn + string) \<Rightarrow> nat \<Rightarrow> row list \<Rightarrow> exn + string list" where
  "context_parts render i [] = Inr []"
| "context_parts render i (r # rs) =
     bindE (render i r) (\<lambda>part.
     bindE (context_parts render (Suc i) rs) (\<lambda>parts. Inr (part # parts)))"

definition retrieve_context :: "env \<Rightarrow> string \<Rightarrow> nat \<Rightarrow> string prog" where
  "retrieve_context E question limit =
     bindP (execute_query E (KeywordQuery (split_ws (lower question)) limit)) (\<lambda>results.
     liftP (bindE (context_parts (render_keyword E) 1 results) (\<lambda>parts.
            Inr (join_str ''\<newline>\<newline>'' parts))))"

definition retrieve_with_vector_search :: "env \<Rightarrow> string \<Rightarrow> nat \<Rightarrow> string prog" where
  "retrieve_with_vector_search E question limit =
     bindP (get_embedding E question) (\<lambda>embedding.
     bindP (execute_query E (VectorQuery embedding limit)) (\<lambda>results.
     liftP (bindE (context_parts (render_vector E) 1 results) (\<lambda>parts.
            Inr (join_str ''\<newline>\<newline>'' parts)))))"

definition answer_request :: "string \<Rightarrow> string \<Rightarrow> chat_request" where
  "answer_request question context =
     \<lparr>prompt_of = AnswerPrompt question context,
      temperature = 7 / 10, max_tokens = 500, seed = None\<rparr>"

definition generate_answer :: "env \<Rightarrow> string \<Rightarrow> string \<Rightarrow> string prog" where
  "generate_answer E question context = chat_completion E (answer_request question context)"

text \<open>\<^verbatim>\<open>extract_sources\<close>: the loop over the lines of the context.\<close>

fun sources_of_lines :: "string list \<Rightarrow> string list" where
  "sources_of_lines [] = []"
| "sources_of_lines (line # rest) =
     (if startswith line ''Article'' \<and> contains line '':''
      then strip (split_once '':'' line ! 1) # sources_of_lines rest
      else sources_of_lines rest)"

definition extract_sources :: "string \<Rightarrow> string list" where
  "extract_sources context = sources_of_lines (py_split ''\<newline>'' context)"

text \<open>The result of \<^verbatim>\<open>query\<close>; the elapsed time is not modelled.\<close>

record rag_result =
  rag_answer :: string
  rag_context :: string
  rag_sources :: "string list"

text \<open>
  \<^verbatim>\<open>query\<close>: \<open>retrieve\<close> is the branch on \<^verbatim>\<open>use_vector_search\<close> at its head, both
  strategies with their default limit of 5.
\<close>

definition retrieve :: "env \<Rightarrow> string \<Rightarrow> bool \<Rightarrow> string prog" where
  "retrieve E question use_vector_search =
     (if use_vector_search then retrieve_with_vector_search E question 5
      else retrieve_context E question 5)"

definition query :: "env \<Rightarrow> string \<Rightarrow> bool \<Rightarrow> rag_result prog" where
  "query E question use_vector_search =
     bindP (retrieve E question use_vector_search) (\<lambda>context.
       if context = [] then
         returnP \<lparr>rag_answer = ''I couldn't find any relevant information in the knowledge graph.'',
                  rag_context = [], rag_sources = []\<rparr>
       else
         bindP (generate_answer E question context) (\<lambda>answer.
         returnP \<lparr>rag_answer = answer, rag_context = context,
                  rag_sources = extract_sources context\<rparr>))"

section \<open>The Subgraph Extractor\<close>

text \<open>
  Keys of a Python dictionary. Equal numbers are one key whatever their type (\<^verbatim>\<open>1\<close>,
  \<^verbatim>\<open>1.0\<close> and \<^verbatim>\<open>True\<close>); lists and dictionaries are unhashable.
\<close>

datatype key = KNone | KNum rat | KStr string

fun key_of :: "val \<Rightarrow> key option" where
  "key_of VNone = Some KNone"
| "key_of (VBool b) = Some (KNum (if b then 1 else 0))"
| "key_of (VInt i) = Some (KNum (of_int i))"
| "key_of (VFloat q) = Some (KNum q)"
| "key_of (VStr s) = Some (KStr s)"
| "key_of (VList xs) = None"
| "key_of (VDict kvs) = None"

definition unhashable :: "val \<Rightarrow> exn" where
  "unhashable v = TypeError (''unhashable type: '' @ [CHR 0x27] @ type_name v @ [CHR 0x27])"

text \<open>\<^verbatim>\<open>d[k] = v\<close>: a known key keeps its place, a new one goes last.\<close>

fun dict_set :: "(key \<times> val) list \<Rightarrow> key \<Rightarrow> val \<Rightarrow> (key \<times> val) list" where
  "dict_set [] k v = [(k, v)]"
| "dict_set ((k', v') # kvs) k v =
     (if k' = k then (k', v) # kvs else (k', v') # dict_set kvs k v)"

text \<open>\<^verbatim>\<open>x in d\<close> for a dictionary \<open>d\<close>: the key must be hashable.\<close>

definition key_in :: "val \<Rightarrow> (key \<times> val) list \<Rightarrow> exn + bool" where
  "key_in v nd = (case key_of v of None \<Rightarrow> Inl (unhashable v) | Some k \<Rightarrow> Inr (k \<in> set (map fst nd)))"

text \<open>\<^verbatim>\<open>value.get(k, default)\<close>: only a dictionary has the method.\<close>

definition py_get :: "val \<Rightarrow> string \<Rightarrow> val \<Rightarrow> exn + val" where
  "py_get v k dflt =
     (case v of
        VDict d \<Rightarrow> Inr (case map_of d k of None \<Rightarrow> dflt | Some x \<Rightarrow> x)
      | _ \<Rightarrow> Inl (AttributeError ([CHR 0x27] @ type_name v @ [CHR 0x27]
                                  @ '' object has no attribute 'get'' @ [CHR 0x27])))"

text \<open>\<^verbatim>\<open>for item in value\<close>: a string yields its characters, a dictionary its keys.\<close>

definition py_iter :: "val \<Rightarrow> exn + val list" where
  "py_iter v =
     (case v of
        VList xs \<Rightarrow> Inr xs
      | VStr s \<Rightarrow> Inr (map (\<lambda>c. VStr [c]) s)
      | VDict d \<Rightarrow> Inr (map (\<lambda>kv. VStr (fst kv)) d)
      | _ \<Rightarrow> Inl (TypeError ([CHR 0x27] @ type_name v @ [CHR 0x27] @ '' object is not iterable'')))"

text \<open>
  Step 1: the non-empty strings among the values of the records, and among the items of
  their list values, in the order they are added to the set \<^verbatim>\<open>entity_names\<close>.
\<close>

fun names_of_value :: "val \<Rightarrow> string list" where
  "names_of_value (VStr s) = (if s \<noteq> [] then [s] else [])"
| "names_of_value (VList items) =
     concat (map (\<lambda>item. case item of VStr s \<Rightarrow> (if s \<noteq> [] then [s] else []) | _ \<Rightarrow> []) items)"
| "names_of_value v = []"

definition collect_entity_names :: "row list \<Rightarrow> string list" where
  "collect_entity_names results =
     concat (map (\<lambda>result. concat (map (\<lambda>kv. names_of_value (snd kv)) result)) results)"

text \<open>The two accumulators of the extractor, created before its \<^verbatim>\<open>try\<close>.\<close>

record graph_acc =
  nodes_dict :: "(key \<times> val) list"
  relationships_list :: "val list"

record graph_snapshot =
  nodes :: "val list"
  relationships :: "val list"

text \<open>The body of the loop over the nodes of a lookup result.\<close>

definition add_node :: "val \<Rightarrow> (key \<times> val) list \<Rightarrow> exn + (key \<times> val) list" where
  "add_node node nd =
     (if \<not> truthy node then Inr nd
      else bindE (py_get node ''id'' VNone) (\<lambda>i.
           if i = VNone then Inr nd
           else (case key_of i of
                   None \<Rightarrow> Inl (unhashable i)
                 | Some k \<Rightarrow> Inr (dict_set nd k node))))"

text \<open>
  A loop of the extractor returns the exception that stopped it, if any, together with
  the accumulators as they were at that moment: the handler leaves them as they are.
\<close>

fun process_nodes :: "val list \<Rightarrow> graph_acc \<Rightarrow> exn option \<times> graph_acc" where
  "process_nodes [] acc = (None, acc)"
| "process_nodes (node # rest) acc =
     (case add_node node (nodes_dict acc) of
        Inl e \<Rightarrow> (Some e, acc)
      | Inr nd \<Rightarrow> process_nodes rest (acc\<lparr>nodes_dict := nd\<rparr>))"

text \<open>The body of the loop over the relationships of a lookup result.\<close>

definition add_rel :: "val \<Rightarrow> graph_acc \<Rightarrow> exn + graph_acc" where
  "add_rel rel acc =
     (if \<not> truthy rel then Inr acc
      else bindE (py_get rel ''source'' VNone) (\<lambda>s.
           if s = VNone then Inr acc
           else bindE (py_get rel ''target'' VNone) (\<lambda>t.
           if t = VNone then Inr acc
           else bindE (key_in s (nodes_dict acc)) (\<lambda>s_in.
                if \<not> s_in then Inr acc
                else bindE (key_in t (nodes_dict acc)) (\<lambda>t_in.
                     if t_in
                     then Inr (acc\<lparr>relationships_list := relationships_list acc @ [rel]\<rparr>)
                     else Inr acc)))))"

fun process_rels :: "val list \<Rightarrow> graph_acc \<Rightarrow> exn option \<times> graph_acc" where
  "process_rels [] acc = (None, acc)"
| "process_rels (rel # rest) acc =
     (case add_rel rel acc of
        Inl e \<Rightarrow> (Some e, acc)
      | Inr acc' \<Rightarrow> process_rels rest acc')"

text \<open>
  Merging one lookup result: \<^verbatim>\<open>if graph_results and len(graph_results) > 0 and
  graph_results[0]\<close>, then the nodes of the first record, then its relationships.
\<close>

definition row_get :: "row \<Rightarrow> string \<Rightarrow> val \<Rightarrow> val" where
  "row_get r k dflt = (case map_of r k of None \<Rightarrow> dflt | Some x \<Rightarrow> x)"

definition merge_lookup :: "row list \<Rightarrow> graph_acc \<Rightarrow> exn option \<times> graph_acc" where
  "merge_lookup graph_results acc =
     (case graph_results of
        [] \<Rightarrow> (None, acc)
      | first # others \<Rightarrow>
          if first = [] then (None, acc)
          else (case py_iter (row_get first ''nodes'' (VList [])) of
                  Inl e \<Rightarrow> (Some e, acc)
                | Inr ns \<Rightarrow>
                    (case process_nodes ns acc of
                       (Some e, acc1) \<Rightarrow> (Some e, acc1)
                     | (None, acc1) \<Rightarrow>
                         (case py_iter (row_get first ''relationships'' (VList [])) of
                            Inl e \<Rightarrow> (Some e, acc1)
                          | Inr rs \<Rightarrow> process_rels rs acc1))))"

text \<open>
  The body of the \<^verbatim>\<open>try\<close>: the size test on the set of names, lookup A by researcher
  name and, when it leaves no node, lookup B by article title.
\<close>

definition extract_body ::
  "env \<Rightarrow> row list \<Rightarrow> graph_acc \<Rightarrow> call list \<Rightarrow> (exn option \<times> graph_acc) \<times> call list" where
  "extract_body E results acc cs =
     (let added = collect_entity_names results in
      if added \<noteq> [] \<and> length (remdups added) < 50 then
        (let entity_names = take 20 (set_order E added) in
         case execute_query E (ResearcherLookup entity_names) cs of
           (Inl e, cs1) \<Rightarrow> ((Some e, acc), cs1)
         | (Inr graph_results, cs1) \<Rightarrow>
             (case merge_lookup graph_results acc of
                (Some e, acc1) \<Rightarrow> ((Some e, acc1), cs1)
              | (None, acc1) \<Rightarrow>
                  if nodes_dict acc1 = [] then
                    (case execute_query E (ArticleLookup entity_names) cs1 of
                       (Inl e, cs2) \<Rightarrow> ((Some e, acc1), cs2)
                     | (Inr article_results, cs2) \<Rightarrow> (merge_lookup article_results acc1, cs2))
                  else ((None, acc1), cs1)))
      else ((None, acc), cs))"

text \<open>
  \<^verbatim>\<open>_extract_graph_from_results\<close>: whatever the body did, the \<^verbatim>\<open>return\<close> after the
  handler builds the snapshot from the two accumulators.
\<close>

definition extract_graph_from_results :: "env \<Rightarrow> row list \<Rightarrow> string \<Rightarrow> graph_snapshot prog" where
  "extract_graph_from_results E results cypher =
     (\<lambda>cs. case extract_body E results \<lparr>nodes_dict = [], relationships_list = []\<rparr> cs of
             ((raised, acc), cs') \<Rightarrow>
               (Inr \<lparr>nodes = map snd (nodes_dict acc),
                     relationships = relationships_list acc\<rparr>, cs'))"

text \<open>
  The invariant of a snapshot: each relationship is a dictionary whose \<^verbatim>\<open>source\<close> and
  \<^verbatim>\<open>target\<close> are identifiers of nodes of the snapshot.
\<close>

definition node_key :: "val \<Rightarrow> key option" where
  "node_key node =
     (case node of
        VDict d \<Rightarrow> (case map_of d ''id'' of None \<Rightarrow> None | Some i \<Rightarrow> key_of i)
      | _ \<Rightarrow> None)"

definition endpoint_in :: "key list \<Rightarrow> val \<Rightarrow> string \<Rightarrow> bool" where
  "endpoint_in keys rel field =
     (case rel of
        VDict d \<Rightarrow>
          (case map_of d field of
             None \<Rightarrow> False
           | Some v \<Rightarrow> (case key_of v of None \<Rightarrow> False | Some k \<Rightarrow> k \<in> set keys))
      | _ \<Rightarrow> False)"

definition node_keys :: "graph_snapshot \<Rightarrow> key list" where
  "node_keys g = List.map_filter node_key (nodes g)"

definition snapshot_invariant :: "graph_snapshot \<Rightarrow> bool" where
  "snapshot_invariant g =
     list_all (\<lambda>rel. endpoint_in (node_keys g) rel ''source''
                   \<and> endpoint_in (node_keys g) rel ''target'') (relationships g)"

text \<open>
  The invariant of the two accumulators while the extractor runs: every entry of
  \<open>nodes_dict\<close> is filed under the key of its own \<^verbatim>\<open>id\<close>, and both ends of every
  relationship kept so far are keys of \<open>nodes_dict\<close>.
\<close>

definition acc_ok :: "graph_acc \<Rightarrow> bool" where
  "acc_ok acc =
     (list_all (\<lambda>kv. node_key (snd kv) = Some (fst kv)) (nodes_dict acc)
      \<and> list_all (\<lambda>rel. endpoint_in (map fst (nodes_dict acc)) rel ''source''
                      \<and> endpoint_in (map fst (nodes_dict acc)) rel ''target'')
           (relationships_list acc))"

section \<open>The Query Translator and the Knowledge Graph branch\<close>

text \<open>
  \<^verbatim>\<open>value[:50]\<close>, as \<^verbatim>\<open>get_graph_schema\<close> applies it to the article of a sample: strings
  and lists can be sliced, anything else raises.
\<close>

definition py_slice :: "nat \<Rightarrow> val \<Rightarrow> exn + val" where
  "py_slice n v =
     (case v of
        VStr s \<Rightarrow> Inr (VStr (take n s))
      | VList xs \<Rightarrow> Inr (VList (take n xs))
      | _ \<Rightarrow> Inl (TypeError ([CHR 0x27] @ type_name v @ [CHR 0x27] @ '' object is not subscriptable'')))"

definition bullet :: string where
  "bullet = [CHR 0xE2, CHR 0x80, CHR 0xA2]"

definition schema_header :: string where
  \<open>schema_header =
     ''\<newline>Graph Database Schema:\<newline>=====================\<newline>\<newline>''
   @ ''Node Types:\<newline>-----------\<newline>''
   @ ''1. Researcher\<newline>   Properties: name (string)\<newline>''
   @ ''   Example: "Emily Chen", "Dr. Sarah Williams"\<newline>\<newline>''
   @ ''2. Article\<newline>   Properties: title (string), abstract (string), publication_date (date)\<newline>''
   @ ''   Example: "AI in Healthcare", "Machine Learning Applications"\<newline>\<newline>''
   @ ''3. Topic\<newline>   Properties: name (string)\<newline>''
   @ ''   Example: "Artificial Intelligence", "Climate Change"\<newline>\<newline>''
   @ ''Relationships:\<newline>--------------\<newline>''
   @ ''1. (Researcher)-[:PUBLISHED]->(Article)\<newline>   - A researcher published an article\<newline>\<newline>''
   @ ''2. (Article)-[:IN_TOPIC]->(Topic)\<newline>   - An article belongs to a topic\<newline>\<newline>''
   @ ''Important Notes:\<newline>----------------\<newline>''
   @ ''- Multiple researchers can publish the SAME article (co-authorship)\<newline>''
   @ ''- An article can have multiple topics\<newline>''
   @ ''- Use MATCH patterns to find relationships\<newline>''
   @ ''- Use WHERE clauses for filtering\<newline>''
   @ ''- Use toLower() for case-insensitive matching\<newline>''
   @ ''- Property access: node.property (e.g., r.name, a.title)\<newline>\<newline>''
   @ ''Sample Data:\<newline>------------\<newline>''\<close>

definition sample_line :: "env \<Rightarrow> row \<Rightarrow> exn + string" where
  "sample_line E sample =
     bindE (getitem sample ''researcher'') (\<lambda>researcher.
     bindE (getitem sample ''article'') (\<lambda>article.
     bindE (py_slice 50 article) (\<lambda>article50.
     bindE (getitem sample ''topic'') (\<lambda>topic.
       Inr (''\<newline>'' @ bullet @ '' '' @ py_str E researcher @ '' -> '' @ py_str E article50
            @ ''... -> '' @ py_str E topic)))))"

fun sample_lines :: "env \<Rightarrow> row list \<Rightarrow> exn + string" where
  "sample_lines E [] = Inr []"
| "sample_lines E (sample # rest) =
     bindE (sample_line E sample) (\<lambda>line.
     bindE (sample_lines E rest) (\<lambda>lines. Inr (line @ lines)))"

definition get_graph_schema :: "env \<Rightarrow> string prog" where
  "get_graph_schema E =
     bindP (execute_query E SchemaSampleQuery) (\<lambda>samples.
     liftP (bindE (sample_lines E samples) (\<lambda>lines. Inr (schema_header @ lines))))"

text \<open>\<^verbatim>\<open>s.replace(old, new)\<close> for a non-empty \<open>old\<close>.\<close>

definition replace :: "string \<Rightarrow> string \<Rightarrow> string \<Rightarrow> string" where
  "replace old new s = join_str new (py_split old s)"

text \<open>
  The dictionaries the methods return are records; a key that a dictionary does not have,
  or that holds \<^verbatim>\<open>None\<close>, is \<open>None\<close>. Reading an absent key raises \<^verbatim>\<open>KeyError\<close>.
  Elapsed times are not modelled.
\<close>

definition opt_get :: "'a option \<Rightarrow> string \<Rightarrow> exn + 'a" where
  "opt_get x k = (case x of None \<Rightarrow> Inl (KeyError k) | Some v \<Rightarrow> Inr v)"

definition opt_str :: "string option \<Rightarrow> string" where
  "opt_str x = (case x of None \<Rightarrow> ''None'' | Some s \<Rightarrow> s)"

record cypher_result =
  tc_success :: bool
  tc_cypher :: "string option"
  tc_error :: "string option"

text \<open>
  \<^verbatim>\<open>text_to_cypher\<close>: the schema is fetched before the \<^verbatim>\<open>try\<close>; the completion call and
  the stripping of the code fences (\<open>clean_cypher\<close>) are inside it.
\<close>

definition clean_cypher :: "string \<Rightarrow> string" where
  "clean_cypher content = strip (replace ''```'' [] (replace ''```cypher'' [] (strip content)))"

definition cypher_request :: "string \<Rightarrow> string \<Rightarrow> chat_request" where
  "cypher_request schema question =
     \<lparr>prompt_of = CypherPrompt schema question,
      temperature = 1 / 10, max_tokens = 300, seed = None\<rparr>"

definition text_to_cypher :: "env \<Rightarrow> string \<Rightarrow> cypher_result prog" where
  "text_to_cypher E question =
     bindP (get_graph_schema E) (\<lambda>schema.
     catchP
       (bindP (chat_completion E (cypher_request schema question))
          (\<lambda>content.
             returnP \<lparr>tc_success = True,
                      tc_cypher = Some (clean_cypher content),
                      tc_error = None\<rparr>))
       (\<lambda>e. returnP \<lparr>tc_success = False, tc_cypher = None, tc_error = Some (str_exn e)\<rparr>))"

record exec_result =
  ex_success :: bool
  ex_cypher :: "string option"
  ex_results :: "row list option"
  ex_result_count :: "nat option"
  ex_graph_data :: "graph_snapshot option"
  ex_error :: "string option"

definition execute_text_to_cypher :: "env \<Rightarrow> string \<Rightarrow> exec_result prog" where
  "execute_text_to_cypher E question =
     bindP (text_to_cypher E question) (\<lambda>cypher_result.
       if \<not> tc_success cypher_result then
         returnP \<lparr>ex_success = False, ex_cypher = None, ex_results = None,
                  ex_result_count = None, ex_graph_data = None,
                  ex_error = Some (''Failed to generate Cypher: ''
                                   @ opt_str (tc_error cypher_result))\<rparr>
       else
         bindP (liftP (opt_get (tc_cypher cypher_result) ''cypher'')) (\<lambda>cypher.
         catchP
           (bindP (execute_query E (GeneratedCypher cypher)) (\<lambda>results.
            bindP (extract_graph_from_results E results cypher) (\<lambda>graph_data.
            returnP \<lparr>ex_success = True, ex_cypher = Some cypher, ex_results = Some results,
                     ex_result_count = Some (length results),
                     ex_graph_data = Some graph_data, ex_error = None\<rparr>)))
           (\<lambda>e. returnP \<lparr>ex_success = False, ex_cypher = Some cypher, ex_results = Some [],
                          ex_result_count = Some 0,
                          ex_graph_data = Some \<lparr>nodes = [], relationships = []\<rparr>,
                          ex_error = Some (''Cypher execution error: '' @ str_exn e)\<rparr>)))"

text \<open>\<^verbatim>\<open>format_kg_results\<close>: at most twenty records, at most five items of a list value.\<close>

definition format_value :: "env \<Rightarrow> val \<Rightarrow> string" where
  "format_value E v =
     (case v of
        VList items \<Rightarrow> join_str '', '' (map (py_str E) (take 5 items))
      | _ \<Rightarrow> py_str E v)"

definition format_row :: "env \<Rightarrow> nat \<Rightarrow> row \<Rightarrow> string" where
  "format_row E i r =
     ''Result '' @ str_nat i @ '':''
     @ concat (map (\<lambda>kv. ''\<newline>  '' @ bullet @ '' '' @ fst kv @ '': '' @ format_value E (snd kv)) r)"

fun format_rows :: "env \<Rightarrow> nat \<Rightarrow> row list \<Rightarrow> string list" where
  "format_rows E i [] = []"
| "format_rows E i (r # rs) = format_row E i r # format_rows E (Suc i) rs"

definition format_kg_results :: "env \<Rightarrow> row list \<Rightarrow> string" where
  "format_kg_results E results =
     (if results = [] then ''No results found.''
      else join_str ''\<newline>\<newline>'' (format_rows E 1 (take 20 results)))"

record kg_result =
  kg_method :: string
  kg_success :: bool
  kg_error :: "string option"
  kg_answer :: string
  kg_cypher :: "string option"
  kg_results :: "row list option"
  kg_result_count :: "nat option"
  kg_formatted_results :: "string option"
  kg_graph_data :: "graph_snapshot option"

definition explanation_request :: "string \<Rightarrow> string \<Rightarrow> string \<Rightarrow> chat_request" where
  "explanation_request question cypher formatted_results =
     \<lparr>prompt_of = ExplanationPrompt question cypher formatted_results,
      temperature = 7 / 10, max_tokens = 500, seed = None\<rparr>"

definition kg_query_with_explanation :: "env \<Rightarrow> string \<Rightarrow> kg_result prog" where
  "kg_query_with_explanation E question =
     bindP (execute_text_to_cypher E question) (\<lambda>r.
       if \<not> ex_success r then
         bindP (liftP (opt_get (ex_error r) ''error'')) (\<lambda>err.
         returnP \<lparr>kg_method = ''Knowledge Graph (Text-to-Cypher)'', kg_success = False,
                  kg_error = Some err,
                  kg_answer = ''Failed to query knowledge graph: '' @ err,
                  kg_cypher = None, kg_results = None, kg_result_count = None,
                  kg_formatted_results = None, kg_graph_data = None\<rparr>)
       else
         bindP (liftP (opt_get (ex_results r) ''results'')) (\<lambda>results.
         bindP (liftP (opt_get (ex_cypher r) ''cypher'')) (\<lambda>cypher.
         bindP (catchP
                  (chat_completion E
                     (explanation_request question cypher (format_kg_results E results)))
                  (\<lambda>e. bindP (liftP (opt_get (ex_result_count r) ''result_count'')) (\<lambda>n.
                        returnP (''Found '' @ str_nat n
                                 @ '' results, but failed to generate explanation: ''
                                 @ str_exn e))))
           (\<lambda>answer.
         bindP (liftP (opt_get (ex_result_count r) ''result_count'')) (\<lambda>result_count.
         returnP \<lparr>kg_method = ''Knowledge Graph (Text-to-Cypher)'', kg_success = True,
                  kg_error = None, kg_answer = answer,
                  kg_cypher = Some cypher, kg_results = Some results,
                  kg_result_count = Some result_count,
                  kg_formatted_results = Some (format_kg_results E results),
                  kg_graph_data = Some (case ex_graph_data r of
                                          None \<Rightarrow> \<lparr>nodes = [], relationships = []\<rparr>
                                        | Some g \<Rightarrow> g)\<rparr>)))))"

section \<open>The Judge and the Comparison Orchestrator\<close>

text \<open>
  Operations on the object the judge's reply parses to, which may be any JSON value:
  \<^verbatim>\<open>k in value\<close>, \<^verbatim>\<open>value[k]\<close> for a string \<open>k\<close>, and \<^verbatim>\<open>value.upper()\<close>.
\<close>

definition py_contains_key :: "string \<Rightarrow> val \<Rightarrow> exn + bool" where
  "py_contains_key k v =
     (case v of
        VDict d \<Rightarrow> Inr (k \<in> set (map fst d))
      | VList xs \<Rightarrow> Inr (VStr k \<in> set xs)
      | VStr s \<Rightarrow> Inr (contains s k)
      | _ \<Rightarrow> Inl (TypeError (''argument of type '' @ [CHR 0x27] @ type_name v @ [CHR 0x27]
                              @ '' is not iterable'')))"

definition py_index_str :: "val \<Rightarrow> string \<Rightarrow> exn + val" where
  "py_index_str v k =
     (case v of
        VDict d \<Rightarrow> getitem d k
      | VList xs \<Rightarrow> Inl (TypeError ''list indices must be integers or slices, not str'')
      | VStr s \<Rightarrow> Inl (TypeError (''string indices must be integers, not 'str'' @ [CHR 0x27]))
      | _ \<Rightarrow> Inl (TypeError ([CHR 0x27] @ type_name v @ [CHR 0x27] @ '' object is not subscriptable'')))"

definition ascii_upper :: "char \<Rightarrow> char" where
  "ascii_upper c =
     (if 97 \<le> (of_char c :: nat) \<and> (of_char c :: nat) \<le> 122
      then char_of ((of_char c :: nat) - 32) else c)"

definition py_upper :: "val \<Rightarrow> exn + string" where
  "py_upper v =
     (case v of
        VStr s \<Rightarrow> Inr (map ascii_upper s)
      | _ \<Rightarrow> Inl (AttributeError ([CHR 0x27] @ type_name v @ [CHR 0x27]
                                  @ '' object has no attribute 'upper'' @ [CHR 0x27])))"

text \<open>
  The two winner tables of the source, each a dictionary lookup with a default:
  \<^verbatim>\<open>winner_map.get(..., 'UNKNOWN')\<close> in \<^verbatim>\<open>compare_with_judge\<close> and the table of the
  per-question listing in \<^verbatim>\<open>batch_judge_questions\<close>. The key must be hashable.
\<close>

definition winner_label :: "val \<Rightarrow> exn + string" where
  "winner_label w =
     (case key_of w of
        None \<Rightarrow> Inl (unhashable w)
      | Some k \<Rightarrow> Inr (if k = KStr ''A'' then ''RAG''
                       else if k = KStr ''B'' then ''Knowledge Graph''
                       else if k = KStr ''TIE'' then ''TIE''
                       else ''UNKNOWN''))"

definition winner_name :: "val \<Rightarrow> exn + string" where
  "winner_name w =
     (case key_of w of
        None \<Rightarrow> Inl (unhashable w)
      | Some k \<Rightarrow> Inr (if k = KStr ''A'' then ''RAG''
                       else if k = KStr ''B'' then ''KG''
                       else if k = KStr ''TIE'' then ''TIE''
                       else ''?''))"

text \<open>\<^verbatim>\<open>if judgment.get(k): for item in judgment[k]: print(item)\<close>.\<close>

definition print_items :: "val \<Rightarrow> string \<Rightarrow> exn + unit" where
  "print_items judgment k =
     bindE (py_get judgment k VNone) (\<lambda>v.
       if truthy v then bindE (py_iter v) (\<lambda>items. Inr ()) else Inr ())"

text \<open>
  The display of the verdict. It returns the winner label it prints, if it prints one, and
  raises where the source's expressions do.
\<close>

definition display_verdict :: "val \<Rightarrow> exn + string option" where
  "display_verdict judgment =
     bindE (py_contains_key ''error'' judgment) (\<lambda>has_error.
       if has_error then bindE (py_index_str judgment ''error'') (\<lambda>e. Inr None)
       else
         bindE (py_contains_key ''raw_text'' judgment) (\<lambda>has_raw_text.
           if has_raw_text then bindE (py_index_str judgment ''raw_text'') (\<lambda>t. Inr None)
           else
             bindE (py_get judgment ''winner'' (VStr ''UNKNOWN'')) (\<lambda>w.
             bindE (winner_label w) (\<lambda>winner.
             bindE (py_get judgment ''confidence'' (VStr ''unknown'')) (\<lambda>c.
             bindE (py_upper c) (\<lambda>confidence.
             bindE (print_items judgment ''strengths_a'') (\<lambda>u1.
             bindE (print_items judgment ''strengths_b'') (\<lambda>u2.
             bindE (print_items judgment ''weaknesses_a'') (\<lambda>u3.
             bindE (print_items judgment ''weaknesses_b'') (\<lambda>u4.
               Inr (Some winner)))))))))))"

text \<open>
  Parsing the judge's reply: the text inside a code fence, if there is one, is handed to
  the JSON parser; a parse failure keeps that text as \<^verbatim>\<open>raw_text\<close>.
\<close>

definition unfence :: "string \<Rightarrow> string" where
  "unfence judgment_text =
     (if contains judgment_text ''```json''
      then strip (hd (py_split ''```'' (py_split ''```json'' judgment_text ! 1)))
      else if contains judgment_text ''```''
      then strip (hd (py_split ''```'' (py_split ''```'' judgment_text ! 1)))
      else judgment_text)"

definition parse_judgment :: "env \<Rightarrow> string \<Rightarrow> val" where
  "parse_judgment E judgment_text =
     (case json_loads E (unfence judgment_text) of
        Some judgment \<Rightarrow> judgment
      | None \<Rightarrow> VDict [(''raw_text'', VStr (unfence judgment_text))])"

definition judgment_request ::
  "string \<Rightarrow> string \<Rightarrow> nat \<Rightarrow> string \<Rightarrow> string \<Rightarrow> nat \<Rightarrow> string \<Rightarrow> chat_request" where
  "judgment_request question rag_ans n_sources cypher kg_ans result_count raw_results =
     \<lparr>prompt_of = JudgmentPrompt question rag_ans n_sources cypher kg_ans result_count raw_results,
      temperature = 0, max_tokens = 1000, seed = Some 42\<rparr>"

record comparison =
  cmp_question :: string
  cmp_winner :: val
  cmp_reason :: "string option"
  cmp_confidence :: "val option"
  cmp_judgment :: val
  cmp_rag_result :: rag_result
  cmp_kg_result :: kg_result

text \<open>
  The judging step of \<^verbatim>\<open>compare_with_judge\<close>: the prompt is built before the \<^verbatim>\<open>try\<close>,
  the completion call and the parsing are inside it.
\<close>

definition ask_judge :: "env \<Rightarrow> string \<Rightarrow> rag_result \<Rightarrow> kg_result \<Rightarrow> val prog" where
  "ask_judge E question rag kg =
     bindP (liftP (opt_get (kg_cypher kg) ''cypher'')) (\<lambda>cypher.
     bindP (liftP (opt_get (kg_result_count kg) ''result_count'')) (\<lambda>result_count.
     bindP (liftP (opt_get (kg_formatted_results kg) ''formatted_results'')) (\<lambda>formatted.
     catchP
       (bindP (chat_completion E
                 (judgment_request question (rag_answer rag) (length (rag_sources rag))
                    cypher (kg_answer kg) result_count (take 500 formatted)))
          (\<lambda>content. returnP (parse_judgment E (strip content))))
       (\<lambda>e. returnP (VDict [(''error'', VStr (str_exn e))])))))"

definition compare_with_judge :: "env \<Rightarrow> string \<Rightarrow> comparison prog" where
  "compare_with_judge E question =
     bindP (query E question False) (\<lambda>rag.
     bindP (kg_query_with_explanation E question) (\<lambda>kg.
       if \<not> kg_success kg then
         returnP \<lparr>cmp_question = question, cmp_winner = VStr ''RAG'',
                  cmp_reason = Some ''Knowledge Graph query failed'',
                  cmp_confidence = None, cmp_judgment = VNone,
                  cmp_rag_result = rag, cmp_kg_result = kg\<rparr>
       else
         bindP (ask_judge E question rag kg) (\<lambda>judgment.
         bindP (liftP (display_verdict judgment)) (\<lambda>shown.
         bindP (liftP (py_get judgment ''winner'' VNone)) (\<lambda>winner.
         bindP (liftP (py_get judgment ''confidence'' VNone)) (\<lambda>confidence.
         returnP \<lparr>cmp_question = question, cmp_winner = winner, cmp_reason = None,
                  cmp_confidence = Some confidence, cmp_judgment = judgment,
                  cmp_rag_result = rag, cmp_kg_result = kg\<rparr>))))))"

fun is_judge_call :: "call \<Rightarrow> bool" where
  "is_judge_call (ChatCall q) =
     (case prompt_of q of JudgmentPrompt a b c d e f g \<Rightarrow> True | _ \<Rightarrow> False)"
| "is_judge_call c = False"

definition judge_calls :: "call list \<Rightarrow> nat" where
  "judge_calls cs = length (filter is_judge_call cs)"

subsection \<open>Batch aggregation\<close>

text \<open>
  Of \<^verbatim>\<open>batch_judge_questions\<close> the loop over the questions and the statistics it prints
  afterwards are modelled; the connection set-up and the loading of an empty database
  before the loop, and the pause between two questions, are not.
\<close>

fun judge_all :: "env \<Rightarrow> string list \<Rightarrow> comparison list prog" where
  "judge_all E [] = returnP []"
| "judge_all E (question # rest) =
     bindP (compare_with_judge E question) (\<lambda>result.
     bindP (judge_all E rest) (\<lambda>results. returnP (result # results)))"

definition count_winner :: "string \<Rightarrow> comparison list \<Rightarrow> nat" where
  "count_winner w results = length (filter (\<lambda>r. cmp_winner r = VStr w) results)"

definition percentage :: "nat \<Rightarrow> nat \<Rightarrow> exn + rat" where
  "percentage k n =
     (if n = 0 then Inl (ZeroDivisionError ''division by zero'')
      else Inr (of_nat k / of_nat n * 100))"

text \<open>\<^verbatim>\<open>isinstance(value, (int, float))\<close>: a Boolean is an \<^verbatim>\<open>int\<close>.\<close>

fun is_number :: "val \<Rightarrow> bool" where
  "is_number (VInt i) = True"
| "is_number (VFloat q) = True"
| "is_number (VBool b) = True"
| "is_number v = False"

fun num_of :: "val \<Rightarrow> rat" where
  "num_of (VInt i) = of_int i"
| "num_of (VFloat q) = q"
| "num_of (VBool b) = (if b then 1 else 0)"
| "num_of v = 0"

text \<open>
  What one record contributes to the list of accuracy scores of a side:
  \<^verbatim>\<open>'judgment' in r and r['judgment'] and isinstance(r['judgment'].get(field), (int, float))\<close>.
\<close>

definition accuracy_entry :: "string \<Rightarrow> comparison \<Rightarrow> exn + rat list" where
  "accuracy_entry field r =
     (if truthy (cmp_judgment r) then
        bindE (py_get (cmp_judgment r) field VNone) (\<lambda>score.
          if is_number score
          then bindE (py_get (cmp_judgment r) field (VInt 0)) (\<lambda>v. Inr [num_of v])
          else Inr [])
      else Inr [])"

fun accuracy_scores :: "string \<Rightarrow> comparison list \<Rightarrow> exn + rat list" where
  "accuracy_scores field [] = Inr []"
| "accuracy_scores field (r # rs) =
     bindE (accuracy_entry field r) (\<lambda>entry.
     bindE (accuracy_scores field rs) (\<lambda>rest. Inr (entry @ rest)))"

definition mean :: "rat list \<Rightarrow> rat" where
  "mean xs = sum_list xs / of_nat (length xs)"

text \<open>
  The average accuracy of the two sides, printed only when both lists of scores are not
  empty.
\<close>

definition accuracy_summary :: "comparison list \<Rightarrow> exn + (rat \<times> rat) option" where
  "accuracy_summary results =
     bindE (accuracy_scores ''accuracy_score_a'' results) (\<lambda>rag_accuracy.
     bindE (accuracy_scores ''accuracy_score_b'' results) (\<lambda>kg_accuracy.
       Inr (if rag_accuracy \<noteq> [] \<and> kg_accuracy \<noteq> []
            then Some (mean rag_accuracy, mean kg_accuracy) else None)))"

fun winner_names :: "comparison list \<Rightarrow> exn + string list" where
  "winner_names [] = Inr []"
| "winner_names (r # rs) =
     bindE (winner_name (cmp_winner r)) (\<lambda>name.
     bindE (winner_names rs) (\<lambda>names. Inr (name # names)))"

text \<open>The figures \<^verbatim>\<open>batch_judge_questions\<close> prints after the loop.\<close>

record batch_stats =
  rag_wins :: nat
  kg_wins :: nat
  ties :: nat
  rag_percent :: rat
  kg_percent :: rat
  ties_percent :: rat
  average_accuracy :: "(rat \<times> rat) option"
  listing :: "string list"

definition aggregate_statistics :: "string list \<Rightarrow> comparison list \<Rightarrow> exn + batch_stats" where
  "aggregate_statistics questions results =
     bindE (percentage (count_winner ''A'' results) (length questions)) (\<lambda>rag_pct.
     bindE (percentage (count_winner ''B'' results) (length questions)) (\<lambda>kg_pct.
     bindE (percentage (count_winner ''TIE'' results) (length questions)) (\<lambda>ties_pct.
     bindE (accuracy_summary results) (\<lambda>averages.
     bindE (winner_names (map snd (zip questions results))) (\<lambda>names.
       Inr \<lparr>rag_wins = count_winner ''A'' results,
            kg_wins = count_winner ''B'' results,
            ties = count_winner ''TIE'' results,
            rag_percent = rag_pct, kg_percent = kg_pct, ties_percent = ties_pct,
            average_accuracy = averages,
            listing = names\<rparr>)))))"

definition batch_judge_questions :: "env \<Rightarrow> string list \<Rightarrow> (comparison list \<times> batch_stats) prog" where
  "batch_judge_questions E questions =
     bindP (judge_all E questions) (\<lambda>results.
     bindP (liftP (aggregate_statistics questions results)) (\<lambda>stats.
     returnP (results, stats)))"

text \<open>A method is \<open>quiet\<close> when it adds no call of the Judge model to the log.\<close>

definition quiet :: "'a prog \<Rightarrow> bool" where
  "quiet m = (\<forall>cs. judge_calls (snd (m cs)) = judge_calls cs)"

text \<open>
  The statement of the aggregation in the words of the specification: a record carries a
  numeric score of a field when its judgment is a non-empty dictionary whose value at the
  field is a number; the scores of a side are those of the records that carry one.
\<close>

definition has_numeric_score :: "string \<Rightarrow> comparison \<Rightarrow> bool" where
  "has_numeric_score field r =
     (case cmp_judgment r of
        VDict d \<Rightarrow> d \<noteq> [] \<and> (case map_of d field of None \<Rightarrow> False | Some v \<Rightarrow> is_number v)
      | _ \<Rightarrow> False)"

definition score_value :: "string \<Rightarrow> comparison \<Rightarrow> rat" where
  "score_value field r =
     (case cmp_judgment r of
        VDict d \<Rightarrow> (case map_of d field of None \<Rightarrow> 0 | Some v \<Rightarrow> num_of v)
      | _ \<Rightarrow> 0)"

definition scored_values :: "string \<Rightarrow> comparison list \<Rightarrow> rat list" where
  "scored_values field results = map (score_value field) (filter (has_numeric_score field) results)"

text \<open>A judgment as \<^verbatim>\<open>compare_with_judge\<close> returns it: \<^verbatim>\<open>None\<close> or a dictionary.\<close>

definition judged_shape :: "val \<Rightarrow> bool" where
  "judged_shape j = (case j of VNone \<Rightarrow> True | VDict d \<Rightarrow> True | _ \<Rightarrow> False)"

section \<open>Concrete scenarios\<close>

text \<open>
  A decimal rendering with a fixed number of digits, used as the \<open>fixed_repr\<close> of the
  concrete environments below. It rounds the exact rational half up, where Python rounds
  the binary float; the two agree except at ties of the last digit.
\<close>

definition decimal_fixed :: "nat \<Rightarrow> rat \<Rightarrow> string" where
  "decimal_fixed d q =
     (let n = nat \<lfloor>\<bar>q\<bar> * 10 ^ d + 1 / 2\<rfloor>;
          frac = str_nat (n mod 10 ^ d)
      in (if q < 0 then ''-'' else []) @ str_nat (n div 10 ^ d)
         @ (if d = 0 then [] else ''.'' @ replicate (d - length frac) CHR ''0'' @ frac))"

text \<open>A corpus answering every retrieval with one document, similarity 0.873.\<close>

definition vector_rows :: "row list" where
  "vector_rows =
     [[(''title'', VStr ''AI in Healthcare''),
       (''abstract'', VStr ''Models for triage''),
       (''date'', VStr ''2023-05-01''),
       (''topics'', VList [VStr ''Healthcare'']),
       (''authors'', VList [VStr ''Emily Chen'']),
       (''similarity'', VFloat (873 / 1000))]]"

definition vector_env :: env where
  "vector_env =
     \<lparr>graph_service = (\<lambda>n q. Inr vector_rows),
      completion_service = (\<lambda>n q. Inr ''An answer''),
      embedding_service = (\<lambda>n t. Inr []),
      repr_other = (\<lambda>v. []),
      fixed_repr = decimal_fixed,
      set_order = remdups,
      json_loads = (\<lambda>s. None)\<rparr>"

text \<open>An empty corpus: every graph query returns no record.\<close>

definition empty_env :: env where
  "empty_env =
     \<lparr>graph_service = (\<lambda>n q. Inr []),
      completion_service = (\<lambda>n q. Inr ''An answer''),
      embedding_service = (\<lambda>n t. Inr []),
      repr_other = (\<lambda>v. []),
      fixed_repr = decimal_fixed,
      set_order = remdups,
      json_loads = (\<lambda>s. None)\<rparr>"

text \<open>
  A lookup answer with two nodes and two relationships, the second of which points to a
  node (identifier 3) that the answer does not hold.
\<close>

definition researcher_node :: val where
  "researcher_node =
     VDict [(''id'', VInt 1), (''label'', VStr ''Researcher''),
            (''properties'', VDict [(''name'', VStr ''Emily Chen'')])]"

definition article_node :: val where
  "article_node =
     VDict [(''id'', VInt 2), (''label'', VStr ''Article''),
            (''properties'', VDict [(''title'', VStr ''AI in Healthcare'')])]"

definition published_rel :: val where
  "published_rel = VDict [(''source'', VInt 1), (''target'', VInt 2), (''type'', VStr ''PUBLISHED'')]"

definition dangling_rel :: val where
  "dangling_rel = VDict [(''source'', VInt 2), (''target'', VInt 3), (''type'', VStr ''IN_TOPIC'')]"

definition lookup_rows :: "row list" where
  "lookup_rows =
     [[(''nodes'', VList [researcher_node, article_node]),
       (''relationships'', VList [published_rel, dangling_rel])]]"

definition lookup_env :: env where
  "lookup_env =
     \<lparr>graph_service = (\<lambda>n q. case q of ResearcherLookup names \<Rightarrow> Inr lookup_rows | _ \<Rightarrow> Inr []),
      completion_service = (\<lambda>n q. Inr ''An answer''),
      embedding_service = (\<lambda>n t. Inr []),
      repr_other = (\<lambda>v. []),
      fixed_repr = decimal_fixed,
      set_order = remdups,
      json_loads = (\<lambda>s. None)\<rparr>"

text \<open>A lookup answer whose list of relationships holds a string instead of a record.\<close>

definition malformed_rows :: "row list" where
  "malformed_rows =
     [[(''nodes'', VList [researcher_node]),
       (''relationships'', VList [VStr ''PUBLISHED''])]]"

definition malformed_env :: env where
  "malformed_env =
     \<lparr>graph_service = (\<lambda>n q. case q of ResearcherLookup names \<Rightarrow> Inr malformed_rows | _ \<Rightarrow> Inr []),
      completion_service = (\<lambda>n q. Inr ''An answer''),
      embedding_service = (\<lambda>n t. Inr []),
      repr_other = (\<lambda>v. []),
      fixed_repr = decimal_fixed,
      set_order = remdups,
      json_loads = (\<lambda>s. None)\<rparr>"

text \<open>Query results naming one entity, and naming fifty distinct ones.\<close>

definition one_row :: "row list" where
  "one_row = [[(''researcher'', VStr ''Emily Chen''), (''articles'', VInt 3)]]"

definition fifty_rows :: "row list" where
  "fifty_rows = [[(''names'', VList (map (\<lambda>i. VStr (str_nat i)) [0..<50]))]]"


definition bad_cypher_env :: env where
  "bad_cypher_env =
     \<lparr>graph_service = (\<lambda>n q. case q of
                          GeneratedCypher c \<Rightarrow> Inl (ServiceError ''Variable `m` not defined'')
                        | _ \<Rightarrow> Inr []),
      completion_service = (\<lambda>n q. Inr ''```cypher\<newline>MATCH (n) RETURN m\<newline>```''),
      embedding_service = (\<lambda>n t. Inr []),
      repr_other = (\<lambda>v. []),
      fixed_repr = decimal_fixed,
      set_order = remdups,
      json_loads = (\<lambda>s. None)\<rparr>"

text \<open>
  A run in which the query is generated and executed, and the Completion Service fails
  on every later request.
\<close>

definition explain_down_env :: env where
  "explain_down_env =
     \<lparr>graph_service = (\<lambda>n q. case q of
                          GeneratedCypher c \<Rightarrow> Inr one_row
                        | ResearcherLookup names \<Rightarrow> Inr lookup_rows
                        | _ \<Rightarrow> Inr []),
      completion_service = (\<lambda>n q. case prompt_of q of
                          CypherPrompt schema question \<Rightarrow>
                            Inr ''MATCH (r:Researcher)-[:PUBLISHED]->(a) RETURN r.name AS researcher, count(a) AS articles''
                        | _ \<Rightarrow> Inl (ServiceError ''Request timed out'')),
      embedding_service = (\<lambda>n t. Inr []),
      repr_other = (\<lambda>v. []),
      fixed_repr = decimal_fixed,
      set_order = remdups,
      json_loads = (\<lambda>s. None)\<rparr>"

text \<open>
  A batch of five questions: the first is judged with scores 8 and 6, the second with
  scores 5 and 9, on the third the Judge model fails, on the fourth it answers with plain
  text, and for the fifth no query can be generated.
\<close>

definition judged_reply :: string where
  \<open>judged_reply = ''{"winner": "B", "confidence": "high", "accuracy_score_a": 8, "accuracy_score_b": 6}''\<close>

definition judged_object :: val where
  "judged_object =
     VDict [(''winner'', VStr ''B''), (''confidence'', VStr ''high''),
            (''accuracy_score_a'', VInt 8), (''accuracy_score_b'', VInt 6)]"

definition second_reply :: string where
  \<open>second_reply = ''{"winner": "A", "confidence": "low", "accuracy_score_a": 5, "accuracy_score_b": 9}''\<close>

definition second_object :: val where
  "second_object =
     VDict [(''winner'', VStr ''A''), (''confidence'', VStr ''low''),
            (''accuracy_score_a'', VInt 5), (''accuracy_score_b'', VInt 9)]"

definition batch_questions :: "string list" where
  "batch_questions =
     [''Who wrote it?'', ''Who reviewed it?'', ''Who cites it?'', ''What is it about?'', ''When?'']"

definition batch_env :: env where
  "batch_env =
     \<lparr>graph_service = (\<lambda>n q. Inr []),
      completion_service = (\<lambda>n q. case prompt_of q of
                          CypherPrompt schema question \<Rightarrow>
                            (if question = ''When?'' then Inl (ServiceError ''Rate limit exceeded'')
                             else Inr ''MATCH (n) RETURN n.name'')
                        | JudgmentPrompt question a b c d e f \<Rightarrow>
                            (if question = ''Who wrote it?'' then Inr judged_reply
                             else if question = ''Who reviewed it?'' then Inr second_reply
                             else if question = ''Who cites it?''
                             then Inl (ServiceError ''Request timed out'')
                             else Inr ''System B is better.'')
                        | _ \<Rightarrow> Inr ''An answer''),
      embedding_service = (\<lambda>n t. Inr []),
      repr_other = (\<lambda>v. []),
      fixed_repr = decimal_fixed,
      set_order = remdups,
      json_loads = (\<lambda>s. if s = judged_reply then Some judged_object
                         else if s = second_reply then Some second_object else None)\<rparr>"


section \<open>Properties of retrieval and answer generation\<close>

lemma chat_calls_append [simp]: "chat_calls (cs @ ds) = chat_calls cs @ chat_calls ds"
  by (simp add: chat_calls_def)

lemma chat_calls_simps [simp]:
  "chat_calls [] = []"
  "chat_calls (GraphCall g # cs) = chat_calls cs"
  "chat_calls (EmbedCall t # cs) = chat_calls cs"
  "chat_calls (ChatCall q # cs) = q # chat_calls cs"
  by (simp_all add: chat_calls_def)

lemma retrieve_chat_calls:
  "retrieve E question use_vector_search cs = (r, cs') \<Longrightarrow> chat_calls cs' = chat_calls cs"
  by (auto simp: retrieve_def retrieve_context_def retrieve_with_vector_search_def
        bindP_def liftP_def execute_query_def get_embedding_def
      split: if_splits sum.splits prod.splits)

lemma retrieve_context_no_match:
  assumes "graph_service E (length cs) (KeywordQuery (split_ws (lower question)) 5) = Inr []"
  shows "retrieve E question False cs
         = (Inr [], cs @ [GraphCall (KeywordQuery (split_ws (lower question)) 5)])"
  using assms
  by (simp add: retrieve_def retrieve_context_def bindP_def liftP_def execute_query_def bindE_def)

text \<open>
  Claim C5. When retrieval, by keywords or by vectors, yields the empty context, \<open>query\<close>
  returns the canned answer with an empty context and no sources, and the log of service
  calls is the one retrieval left: the Completion Service is not invoked.
\<close>

theorem query_empty_context_short_circuit:
  assumes "retrieve E question use_vector_search cs = (Inr [], cs')"
  shows "query E question use_vector_search cs
           = (Inr \<lparr>rag_answer = ''I couldn't find any relevant information in the knowledge graph.'',
                    rag_context = [], rag_sources = []\<rparr>, cs')
         \<and> chat_calls cs' = chat_calls cs"
proof
  show "query E question use_vector_search cs
           = (Inr \<lparr>rag_answer = ''I couldn't find any relevant information in the knowledge graph.'',
                    rag_context = [], rag_sources = []\<rparr>, cs')"
    using assms by (simp add: query_def bindP_def returnP_def)
  show "chat_calls cs' = chat_calls cs"
    using assms by (rule retrieve_chat_calls)
qed

theorem query_empty_context_short_circuit_witness:
  "retrieve empty_env ''graph databases'' False []
     = (Inr [], [GraphCall (KeywordQuery [''graph'', ''databases''] 5)])
   \<and> query empty_env ''graph databases'' False []
     = (Inr \<lparr>rag_answer = ''I couldn't find any relevant information in the knowledge graph.'',
              rag_context = [], rag_sources = []\<rparr>,
        [GraphCall (KeywordQuery [''graph'', ''databases''] 5)])
   \<and> chat_calls [GraphCall (KeywordQuery [''graph'', ''databases''] 5)] = chat_calls []"
proof -
  have kw: "split_ws (lower ''graph databases'') = [''graph'', ''databases'']"
    by code_simp
  have h: "retrieve empty_env ''graph databases'' False []
     = (Inr [], [GraphCall (KeywordQuery [''graph'', ''databases''] 5)])"
    using retrieve_context_no_match [of empty_env "[]" "''graph databases''"]
    by (simp add: kw empty_env_def)
  from query_empty_context_short_circuit [OF h] h show ?thesis
    by simp
qed

text \<open>
  Claim C9. On a context rendered by the vector strategy the line that starts with
  \<^verbatim>\<open>Article\<close> is \<^verbatim>\<open>Article 1 (Similarity: 0.873):\<close>, and the title stands on the next
  line. The source extracted for the document titled \<^verbatim>\<open>AI in Healthcare\<close> is the text
  after the first colon of the first line, \<^verbatim>\<open>0.873):\<close>, and not the title.
\<close>

theorem query_vector_sources_not_titles:
  "map_sum id rag_sources (fst (query vector_env ''What is new in healthcare AI?'' True []))
     = Inr [''0.873):'']
   \<and> map_sum id rag_sources (fst (query vector_env ''What is new in healthcare AI?'' False []))
     = Inr [''AI in Healthcare'']"
  by code_simp

section \<open>Properties of the Subgraph Extractor\<close>

lemma dict_set_keys: "set (map fst (dict_set nd k v)) = insert k (set (map fst nd))"
  by (induction nd k v rule: dict_set.induct) auto

lemma dict_set_node_keys:
  "list_all (\<lambda>kv. node_key (snd kv) = Some (fst kv)) nd \<Longrightarrow> node_key v = Some k
   \<Longrightarrow> list_all (\<lambda>kv. node_key (snd kv) = Some (fst kv)) (dict_set nd k v)"
  by (induction nd k v rule: dict_set.induct) auto

lemma add_node_cases:
  assumes "add_node node nd = Inr nd'"
  shows "nd' = nd \<or> (\<exists>k. node_key node = Some k \<and> nd' = dict_set nd k node)"
  using assms
  by (cases node)
     (auto simp: add_node_def bindE_def py_get_def node_key_def
           split: if_splits option.splits)

lemma add_node_keys:
  assumes "add_node node nd = Inr nd'"
    and "list_all (\<lambda>kv. node_key (snd kv) = Some (fst kv)) nd"
  shows "list_all (\<lambda>kv. node_key (snd kv) = Some (fst kv)) nd'
         \<and> set (map fst nd) \<subseteq> set (map fst nd')"
  using add_node_cases [OF assms(1)] assms(2)
  by (auto simp: dict_set_keys dict_set_node_keys simp del: set_map)

lemma endpoint_in_mono:
  "endpoint_in ks rel f \<Longrightarrow> set ks \<subseteq> set ks' \<Longrightarrow> endpoint_in ks' rel f"
  by (auto simp: endpoint_in_def split: val.splits option.splits)

lemma process_nodes_ok:
  "process_nodes ns acc = (r, acc') \<Longrightarrow> acc_ok acc \<Longrightarrow> acc_ok acc'"
proof (induction ns arbitrary: acc)
  case Nil
  then show ?case by simp
next
  case (Cons node rest)
  show ?case
  proof (cases "add_node node (nodes_dict acc)")
    case (Inl e)
    with Cons.prems show ?thesis by simp
  next
    case (Inr nd)
    from add_node_keys [OF Inr] Cons.prems(2)
    have "acc_ok (acc\<lparr>nodes_dict := nd\<rparr>)"
      unfolding acc_ok_def list_all_iff
      using endpoint_in_mono [of "map fst (nodes_dict acc)" _ _ "map fst nd"]
      by auto
    with Cons.IH [of "acc\<lparr>nodes_dict := nd\<rparr>"] Cons.prems(1) Inr show ?thesis
      by simp
  qed
qed

lemma add_rel_cases:
  assumes "add_rel rel acc = Inr acc'"
  shows "acc' = acc
         \<or> (acc' = acc\<lparr>relationships_list := relationships_list acc @ [rel]\<rparr>
            \<and> endpoint_in (map fst (nodes_dict acc)) rel ''source''
            \<and> endpoint_in (map fst (nodes_dict acc)) rel ''target'')"
  using assms
  by (cases rel)
     (auto simp: add_rel_def bindE_def py_get_def key_in_def endpoint_in_def
           simp del: set_map split: if_splits option.splits)

lemma add_rel_ok:
  assumes "add_rel rel acc = Inr acc'" and "acc_ok acc"
  shows "acc_ok acc'"
  using add_rel_cases [OF assms(1)] assms(2)
  by (auto simp: acc_ok_def)

lemma process_rels_ok:
  "process_rels rs acc = (r, acc') \<Longrightarrow> acc_ok acc \<Longrightarrow> acc_ok acc'"
proof (induction rs arbitrary: acc)
  case Nil
  then show ?case by simp
next
  case (Cons rel rest)
  then show ?case
    by (cases "add_rel rel acc") (auto dest: add_rel_ok)
qed

lemma merge_lookup_ok:
  "merge_lookup graph_results acc = (r, acc') \<Longrightarrow> acc_ok acc \<Longrightarrow> acc_ok acc'"
  by (auto simp: merge_lookup_def
           split: list.splits if_splits sum.splits prod.splits option.splits
           dest: process_nodes_ok process_rels_ok)

lemma extract_body_ok:
  "extract_body E results acc cs = ((r, acc'), cs') \<Longrightarrow> acc_ok acc \<Longrightarrow> acc_ok acc'"
  by (auto simp: extract_body_def Let_def
           split: if_splits sum.splits prod.splits option.splits
           dest: merge_lookup_ok)

lemma map_filter_node_key:
  "list_all (\<lambda>kv. node_key (snd kv) = Some (fst kv)) nd
   \<Longrightarrow> List.map_filter node_key (map snd nd) = map fst nd"
  by (induction nd) auto

lemma acc_ok_snapshot:
  "acc_ok acc \<Longrightarrow>
   snapshot_invariant \<lparr>nodes = map snd (nodes_dict acc), relationships = relationships_list acc\<rparr>"
  by (simp add: acc_ok_def snapshot_invariant_def node_keys_def map_filter_node_key)

text \<open>The dangling relationship of \<open>lookup_rows\<close> is dropped, the other one is kept.\<close>

lemma extract_drops_dangling:
  "extract_graph_from_results lookup_env one_row ''MATCH (r:Researcher) RETURN r.name'' []
     = (Inr \<lparr>nodes = [researcher_node, article_node], relationships = [published_rel]\<rparr>,
        [GraphCall (ResearcherLookup [''Emily Chen''])])"
  by code_simp

text \<open>
  Claim C2. Whatever the query result and whatever the two lookups answer (or raise), the
  extractor returns a snapshot, and in it both ends of every relationship are identifiers
  of nodes of the snapshot. On the lookup answer \<open>lookup_rows\<close>, whose second relationship
  points to a node that is not there, that relationship is dropped and the first is kept.
\<close>

theorem extract_snapshot_invariant:
  "(\<exists>g cs'. extract_graph_from_results E results cypher cs = (Inr g, cs') \<and> snapshot_invariant g)
   \<and> fst (extract_graph_from_results lookup_env one_row ''MATCH (r:Researcher) RETURN r.name'' [])
       = Inr \<lparr>nodes = [researcher_node, article_node], relationships = [published_rel]\<rparr>"
proof
  obtain r acc cs' where
    b: "extract_body E results \<lparr>nodes_dict = [], relationships_list = []\<rparr> cs = ((r, acc), cs')"
    by (metis surj_pair)
  have "acc_ok \<lparr>nodes_dict = [], relationships_list = []\<rparr>"
    by (simp add: acc_ok_def)
  with b have "acc_ok acc" by (rule extract_body_ok)
  then show "\<exists>g cs'. extract_graph_from_results E results cypher cs = (Inr g, cs')
                      \<and> snapshot_invariant g"
    using b by (simp add: extract_graph_from_results_def acc_ok_snapshot)
  show "fst (extract_graph_from_results lookup_env one_row ''MATCH (r:Researcher) RETURN r.name'' [])
       = Inr \<lparr>nodes = [researcher_node, article_node], relationships = [published_rel]\<rparr>"
    by (simp add: extract_drops_dangling)
qed

lemma extract_body_no_lookup:
  assumes "collect_entity_names results = [] \<or> 50 \<le> card (set (collect_entity_names results))"
  shows "extract_body E results acc cs = ((None, acc), cs)"
  using assms by (auto simp: extract_body_def Let_def length_remdups_card_conv)

lemma extract_body_first_call:
  assumes "collect_entity_names results \<noteq> []"
    and "card (set (collect_entity_names results)) < 50"
  shows "\<exists>rest. snd (extract_body E results acc cs)
           = cs @ GraphCall (ResearcherLookup (take 20 (set_order E (collect_entity_names results)))) # rest"
  using assms
  by (auto simp: extract_body_def Let_def length_remdups_card_conv execute_query_def
           split: sum.splits prod.splits option.splits)

text \<open>
  Claim C3, as the code has it. The test is \<^verbatim>\<open>entity_names and len(entity_names) < 50\<close>:
  with no name, or with fifty names or more, the extractor returns the empty snapshot and
  issues no query. With one to forty-nine names the first query it issues is lookup A, on
  the first twenty names of the set's enumeration.
\<close>

theorem extract_size_gate:
  "(collect_entity_names results = [] \<or> 50 \<le> card (set (collect_entity_names results))
      \<longrightarrow> extract_graph_from_results E results cypher cs
            = (Inr \<lparr>nodes = [], relationships = []\<rparr>, cs))
   \<and> (collect_entity_names results \<noteq> [] \<and> card (set (collect_entity_names results)) < 50
      \<longrightarrow> (\<exists>rest. snd (extract_graph_from_results E results cypher cs)
                   = cs @ GraphCall (ResearcherLookup
                                       (take 20 (set_order E (collect_entity_names results)))) # rest)
          \<and> length (take 20 (set_order E (collect_entity_names results))) \<le> 20)"
proof (intro conjI impI)
  assume "collect_entity_names results = [] \<or> 50 \<le> card (set (collect_entity_names results))"
  then show "extract_graph_from_results E results cypher cs
            = (Inr \<lparr>nodes = [], relationships = []\<rparr>, cs)"
    by (simp add: extract_graph_from_results_def extract_body_no_lookup)
next
  assume a: "collect_entity_names results \<noteq> [] \<and> card (set (collect_entity_names results)) < 50"
  from a extract_body_first_call [of results E "\<lparr>nodes_dict = [], relationships_list = []\<rparr>" cs]
  show "\<exists>rest. snd (extract_graph_from_results E results cypher cs)
                   = cs @ GraphCall (ResearcherLookup
                                       (take 20 (set_order E (collect_entity_names results)))) # rest"
    by (auto simp: extract_graph_from_results_def split: prod.splits)
next
  show "length (take 20 (set_order E (collect_entity_names results))) \<le> 20"
    by simp
qed

theorem extract_size_gate_witness:
  "50 \<le> card (set (collect_entity_names fifty_rows))
   \<and> extract_graph_from_results lookup_env fifty_rows ''MATCH (n) RETURN n.name'' []
       = (Inr \<lparr>nodes = [], relationships = []\<rparr>, [])
   \<and> collect_entity_names one_row \<noteq> []
   \<and> card (set (collect_entity_names one_row)) < 50
   \<and> (\<exists>rest. snd (extract_graph_from_results lookup_env one_row ''MATCH (n) RETURN n.name'' [])
               = GraphCall (ResearcherLookup [''Emily Chen'']) # rest)"
proof -
  have h1: "50 \<le> card (set (collect_entity_names fifty_rows))"
    by code_simp
  have h2: "collect_entity_names one_row \<noteq> [] \<and> card (set (collect_entity_names one_row)) < 50"
    by code_simp
  have n: "take 20 (set_order lookup_env (collect_entity_names one_row)) = [''Emily Chen'']"
    by code_simp
  from extract_size_gate [of fifty_rows lookup_env "''MATCH (n) RETURN n.name''" "[]"] h1
  have c1: "extract_graph_from_results lookup_env fifty_rows ''MATCH (n) RETURN n.name'' []
       = (Inr \<lparr>nodes = [], relationships = []\<rparr>, [])"
    by blast
  from extract_size_gate [of one_row lookup_env "''MATCH (n) RETURN n.name''" "[]"] h2
  have c2: "\<exists>rest. snd (extract_graph_from_results lookup_env one_row ''MATCH (n) RETURN n.name'' [])
               = GraphCall (ResearcherLookup [''Emily Chen'']) # rest"
    unfolding n by simp
  from h1 h2 c1 c2 show ?thesis by blast
qed

text \<open>
  With exactly fifty names the set is not empty and does not exceed fifty, yet no lookup
  query is issued.
\<close>

theorem extract_ceiling_counterexample:
  "collect_entity_names fifty_rows \<noteq> []
   \<and> \<not> 50 < card (set (collect_entity_names fifty_rows))
   \<and> extract_graph_from_results lookup_env fifty_rows ''MATCH (n) RETURN n.name'' []
       = (Inr \<lparr>nodes = [], relationships = []\<rparr>, [])"
  by code_simp

text \<open>
  An exception raised by a lookup query itself leaves both accumulators empty: lookup B is
  only tried when lookup A left no node, and then no relationship was kept either.
\<close>

lemma acc_ok_no_nodes:
  assumes "acc_ok acc" and "nodes_dict acc = []"
  shows "relationships_list acc = []"
proof (cases "relationships_list acc")
  case Nil
  then show ?thesis .
next
  case (Cons rel rest)
  with assms have "endpoint_in [] rel ''source''"
    by (simp add: acc_ok_def)
  then show ?thesis
    by (auto simp: endpoint_in_def split: val.splits option.splits)
qed

lemma extract_lookup_a_raises:
  assumes "collect_entity_names results \<noteq> []"
    and "card (set (collect_entity_names results)) < 50"
    and "graph_service E (length cs)
           (ResearcherLookup (take 20 (set_order E (collect_entity_names results)))) = Inl e"
  shows "fst (extract_graph_from_results E results cypher cs)
           = Inr \<lparr>nodes = [], relationships = []\<rparr>"
  using assms
  by (simp add: extract_graph_from_results_def extract_body_def Let_def
        length_remdups_card_conv execute_query_def)

lemma extract_lookup_b_raises:
  assumes "collect_entity_names results \<noteq> []"
    and "card (set (collect_entity_names results)) < 50"
    and "graph_service E (length cs)
           (ResearcherLookup (take 20 (set_order E (collect_entity_names results)))) = Inr rows"
    and "merge_lookup rows \<lparr>nodes_dict = [], relationships_list = []\<rparr> = (None, acc1)"
    and "nodes_dict acc1 = []"
    and "graph_service E (Suc (length cs))
           (ArticleLookup (take 20 (set_order E (collect_entity_names results)))) = Inl e"
  shows "fst (extract_graph_from_results E results cypher cs)
           = Inr \<lparr>nodes = [], relationships = []\<rparr>"
proof -
  have "acc_ok acc1"
    using merge_lookup_ok [OF assms(4)] by (simp add: acc_ok_def)
  then have "relationships_list acc1 = []"
    using assms(5) by (rule acc_ok_no_nodes)
  with assms show ?thesis
    by (simp add: extract_graph_from_results_def extract_body_def Let_def
          length_remdups_card_conv execute_query_def)
qed

text \<open>
  Claim C4. An exception raised while a lookup result is merged is swallowed, but the
  snapshot returned is not empty: it holds what was merged before the exception. Here the
  node of \<open>malformed_rows\<close> is returned although the string among its relationships
  raised \<^verbatim>\<open>AttributeError\<close>.
\<close>

theorem extract_partial_snapshot_after_exception:
  "fst (fst (extract_body malformed_env one_row \<lparr>nodes_dict = [], relationships_list = []\<rparr> []))
      = Some (AttributeError ([CHR 0x27] @ ''str'' @ [CHR 0x27] @ '' object has no attribute 'get'' @ [CHR 0x27]))
   \<and> fst (extract_graph_from_results malformed_env one_row ''MATCH (r:Researcher) RETURN r.name'' [])
      = Inr \<lparr>nodes = [researcher_node], relationships = []\<rparr>"
  by code_simp

section \<open>Properties of the Knowledge Graph branch\<close>

lemma extract_graph_returns:
  "\<exists>g cs'. extract_graph_from_results E results cypher cs = (Inr g, cs')"
  by (simp add: extract_graph_from_results_def split: prod.splits)







lemma execute_success_shape:
  assumes "execute_text_to_cypher E question cs = (Inr r, cs1)" and "ex_success r"
  shows "\<exists>c rs g. ex_cypher r = Some c \<and> ex_results r = Some rs
           \<and> ex_result_count r = Some (length rs) \<and> ex_graph_data r = Some g
           \<and> ex_error r = None"
proof -
  obtain t cs0 where t: "text_to_cypher E question cs = (t, cs0)"
    by (metis surj_pair)
  show ?thesis
  proof (cases t)
    case (Inl e)
    with t assms show ?thesis
      by (simp add: execute_text_to_cypher_def bindP_def)
  next
    case (Inr tr)
    note tr = Inr
    show ?thesis
    proof (cases "tc_success tr")
      case False
      with t tr assms show ?thesis
        by (auto simp: execute_text_to_cypher_def bindP_def returnP_def)
    next
      case True
      show ?thesis
      proof (cases "tc_cypher tr")
        case None
        with t tr True assms show ?thesis
          by (simp add: execute_text_to_cypher_def bindP_def liftP_def opt_get_def)
      next
        case (Some c)
        show ?thesis
        proof (cases "graph_service E (length cs0) (GeneratedCypher c)")
          case (Inl e)
          with t tr True Some assms show ?thesis
            by (auto simp: execute_text_to_cypher_def bindP_def liftP_def opt_get_def
                  catchP_def returnP_def execute_query_def)
        next
          case (Inr rs)
          obtain g cs' where
            "extract_graph_from_results E rs c (cs0 @ [GraphCall (GeneratedCypher c)]) = (Inr g, cs')"
            using extract_graph_returns by blast
          with t tr True Some Inr assms show ?thesis
            by (auto simp: execute_text_to_cypher_def bindP_def liftP_def opt_get_def
                  catchP_def returnP_def execute_query_def)
        qed
      qed
    qed
  qed
qed

text \<open>
  Claim C10. When the generated query was executed successfully and the completion call
  for the explanation raises, \<open>kg_query_with_explanation\<close> still returns a successful
  result: the answer is the fallback text with the number of results and the message of the
  exception, and the query, the results, their count and the graph data are those of the
  execution step.
\<close>

theorem explanation_failure_fallback:
  assumes "execute_text_to_cypher E question cs = (Inr r, cs1)"
    and "ex_success r"
    and "ex_cypher r = Some cypher"
    and "ex_results r = Some results"
    and "completion_service E (length cs1)
           (explanation_request question cypher (format_kg_results E results)) = Inl e"
  shows "\<exists>k. fst (kg_query_with_explanation E question cs) = Inr k
           \<and> kg_success k
           \<and> kg_answer k = ''Found '' @ str_nat (length results)
                            @ '' results, but failed to generate explanation: '' @ str_exn e
           \<and> kg_cypher k = ex_cypher r
           \<and> kg_results k = ex_results r
           \<and> kg_result_count k = ex_result_count r
           \<and> kg_result_count k = Some (length results)
           \<and> kg_graph_data k = ex_graph_data r"
proof -
  from execute_success_shape [OF assms(1,2)] assms(3,4)
  obtain g where "ex_result_count r = Some (length results)" and "ex_graph_data r = Some g"
    by auto
  with assms show ?thesis
    by (simp add: kg_query_with_explanation_def bindP_def liftP_def opt_get_def
          catchP_def returnP_def chat_completion_def)
qed

theorem explanation_failure_fallback_witness:
  "\<exists>r cs1 k.
      execute_text_to_cypher explain_down_env ''How many articles has each researcher published?'' []
        = (Inr r, cs1)
      \<and> ex_success r
      \<and> ex_results r = Some one_row
      \<and> fst (kg_query_with_explanation explain_down_env
                ''How many articles has each researcher published?'' []) = Inr k
      \<and> kg_success k
      \<and> kg_answer k = ''Found 1 results, but failed to generate explanation: Request timed out''
      \<and> kg_results k = Some one_row
      \<and> kg_result_count k = Some 1
      \<and> kg_graph_data k = Some \<lparr>nodes = [researcher_node, article_node],
                                 relationships = [published_rel]\<rparr>"
proof -
  let ?q = "''How many articles has each researcher published?''"
  let ?c = "''MATCH (r:Researcher)-[:PUBLISHED]->(a) RETURN r.name AS researcher, count(a) AS articles''"
  let ?r = "\<lparr>ex_success = True, ex_cypher = Some ?c, ex_results = Some one_row,
             ex_result_count = Some 1,
             ex_graph_data = Some \<lparr>nodes = [researcher_node, article_node],
                                   relationships = [published_rel]\<rparr>,
             ex_error = None\<rparr>"
  have "fst (execute_text_to_cypher explain_down_env ?q []) = Inr ?r"
    by code_simp
  then have e: "execute_text_to_cypher explain_down_env ?q []
                  = (Inr ?r, snd (execute_text_to_cypher explain_down_env ?q []))"
    by (metis prod.collapse)
  have s: "completion_service explain_down_env
             (length (snd (execute_text_to_cypher explain_down_env ?q [])))
             (explanation_request ?q ?c (format_kg_results explain_down_env one_row))
           = Inl (ServiceError ''Request timed out'')"
    by (simp add: explain_down_env_def explanation_request_def)
  have n: "str_nat (length one_row) = ''1''"
    by code_simp
  from explanation_failure_fallback [OF e _ _ _ s] n e
  show ?thesis
    by auto
qed

section \<open>Properties of the Judge\<close>

lemma judge_calls_append [simp]: "judge_calls (cs @ ds) = judge_calls cs + judge_calls ds"
  by (simp add: judge_calls_def)

lemma judge_calls_Nil [simp]: "judge_calls [] = 0"
  by (simp add: judge_calls_def)

lemma judge_calls_Cons [simp]:
  "judge_calls (c # cs) = (if is_judge_call c then 1 else 0) + judge_calls cs"
  by (simp add: judge_calls_def)

lemma quiet_returnP: "quiet (returnP x)"
  by (simp add: quiet_def returnP_def)

lemma quiet_liftP: "quiet (liftP r)"
  by (simp add: quiet_def liftP_def)

lemma quiet_bindP:
  assumes "quiet m" and "\<And>x. quiet (f x)"
  shows "quiet (bindP m f)"
  unfolding quiet_def bindP_def
proof
  fix cs
  obtain r cs' where m: "m cs = (r, cs')" by (metis surj_pair)
  with assms(1) have "judge_calls cs' = judge_calls cs"
    by (metis quiet_def snd_conv)
  with m assms(2) show "judge_calls (snd (case m cs of (Inl e, cs') \<Rightarrow> (Inl e, cs')
                                          | (Inr x, cs') \<Rightarrow> f x cs')) = judge_calls cs"
    by (cases r) (auto simp: quiet_def)
qed

lemma quiet_catchP:
  assumes "quiet m" and "\<And>e. quiet (h e)"
  shows "quiet (catchP m h)"
  unfolding quiet_def catchP_def
proof
  fix cs
  obtain r cs' where m: "m cs = (r, cs')" by (metis surj_pair)
  with assms(1) have "judge_calls cs' = judge_calls cs"
    by (metis quiet_def snd_conv)
  with m assms(2) show "judge_calls (snd (case m cs of (Inl e, cs') \<Rightarrow> h e cs'
                                          | (Inr x, cs') \<Rightarrow> (Inr x, cs'))) = judge_calls cs"
    by (cases r) (auto simp: quiet_def)
qed

lemma quiet_if: "quiet m \<Longrightarrow> quiet n \<Longrightarrow> quiet (if b then m else n)"
  by simp

lemma quiet_execute_query: "quiet (execute_query E q)"
  by (simp add: quiet_def execute_query_def)

lemma quiet_get_embedding: "quiet (get_embedding E t)"
  by (simp add: quiet_def get_embedding_def)

lemma quiet_generate_answer: "quiet (generate_answer E question context)"
  by (simp add: quiet_def generate_answer_def chat_completion_def answer_request_def)

lemma quiet_cypher_request: "quiet (chat_completion E (cypher_request schema question))"
  by (simp add: quiet_def chat_completion_def cypher_request_def)

lemma quiet_explanation_request:
  "quiet (chat_completion E (explanation_request question cypher formatted))"
  by (simp add: quiet_def chat_completion_def explanation_request_def)

lemma quiet_query: "quiet (query E question use_vector_search)"
  unfolding query_def retrieve_def retrieve_context_def retrieve_with_vector_search_def
  by (intro quiet_bindP quiet_if quiet_returnP quiet_liftP quiet_execute_query
        quiet_get_embedding quiet_generate_answer)

lemma quiet_extract: "quiet (extract_graph_from_results E results cypher)"
  by (auto simp: quiet_def extract_graph_from_results_def extract_body_def Let_def
        execute_query_def split: prod.splits sum.splits option.splits)

lemma quiet_execute_text_to_cypher: "quiet (execute_text_to_cypher E question)"
  unfolding execute_text_to_cypher_def text_to_cypher_def get_graph_schema_def
  by (intro quiet_bindP quiet_catchP quiet_if quiet_returnP quiet_liftP quiet_execute_query
        quiet_cypher_request quiet_extract)

lemma quiet_kg_query: "quiet (kg_query_with_explanation E question)"
  unfolding kg_query_with_explanation_def
  by (intro quiet_bindP quiet_catchP quiet_if quiet_returnP quiet_liftP
        quiet_explanation_request quiet_execute_text_to_cypher)

text \<open>
  Claim C1. When both branches have returned and the KG result is unsuccessful,
  \<open>compare_with_judge\<close> returns the winner \<^verbatim>\<open>RAG\<close> with the reason
  \<^verbatim>\<open>Knowledge Graph query failed\<close> and no judgment. The log of service calls is the one
  the KG branch left, and it holds as many calls of the Judge model as before the
  comparison: none was made.
\<close>

theorem compare_short_circuit:
  assumes "query E question False cs = (Inr rag, cs1)"
    and "kg_query_with_explanation E question cs1 = (Inr kg, cs2)"
    and "\<not> kg_success kg"
  shows "compare_with_judge E question cs
           = (Inr \<lparr>cmp_question = question, cmp_winner = VStr ''RAG'',
                    cmp_reason = Some ''Knowledge Graph query failed'',
                    cmp_confidence = None, cmp_judgment = VNone,
                    cmp_rag_result = rag, cmp_kg_result = kg\<rparr>, cs2)
         \<and> judge_calls cs2 = judge_calls cs"
proof
  show "compare_with_judge E question cs
           = (Inr \<lparr>cmp_question = question, cmp_winner = VStr ''RAG'',
                    cmp_reason = Some ''Knowledge Graph query failed'',
                    cmp_confidence = None, cmp_judgment = VNone,
                    cmp_rag_result = rag, cmp_kg_result = kg\<rparr>, cs2)"
    using assms by (simp add: compare_with_judge_def bindP_def returnP_def)
  have "judge_calls cs1 = judge_calls cs"
    using quiet_query [of E question False] assms(1) by (metis quiet_def snd_conv)
  moreover have "judge_calls cs2 = judge_calls cs1"
    using quiet_kg_query [of E question] assms(2) by (metis quiet_def snd_conv)
  ultimately show "judge_calls cs2 = judge_calls cs" by simp
qed

theorem compare_short_circuit_witness:
  "\<exists>rag cs1 kg cs2.
      query bad_cypher_env ''Who wrote it?'' False [] = (Inr rag, cs1)
      \<and> kg_query_with_explanation bad_cypher_env ''Who wrote it?'' cs1 = (Inr kg, cs2)
      \<and> \<not> kg_success kg
      \<and> kg_error kg = Some ''Cypher execution error: Variable `m` not defined''
      \<and> compare_with_judge bad_cypher_env ''Who wrote it?'' []
          = (Inr \<lparr>cmp_question = ''Who wrote it?'', cmp_winner = VStr ''RAG'',
                   cmp_reason = Some ''Knowledge Graph query failed'',
                   cmp_confidence = None, cmp_judgment = VNone,
                   cmp_rag_result = rag, cmp_kg_result = kg\<rparr>, cs2)
      \<and> judge_calls cs2 = 0"
proof -
  let ?q = "''Who wrote it?''"
  let ?cs1 = "snd (query bad_cypher_env ?q False [])"
  let ?rag = "\<lparr>rag_answer = ''I couldn't find any relevant information in the knowledge graph.'',
               rag_context = [], rag_sources = []\<rparr>"
  let ?kg = "\<lparr>kg_method = ''Knowledge Graph (Text-to-Cypher)'', kg_success = False,
              kg_error = Some ''Cypher execution error: Variable `m` not defined'',
              kg_answer = ''Failed to query knowledge graph: Cypher execution error: Variable `m` not defined'',
              kg_cypher = None, kg_results = None, kg_result_count = None,
              kg_formatted_results = None, kg_graph_data = None\<rparr>"
  let ?cs2 = "snd (kg_query_with_explanation bad_cypher_env ?q ?cs1)"
  have "fst (query bad_cypher_env ?q False []) = Inr ?rag"
    by code_simp
  then have q: "query bad_cypher_env ?q False [] = (Inr ?rag, ?cs1)"
    by (metis prod.collapse)
  have "fst (kg_query_with_explanation bad_cypher_env ?q ?cs1) = Inr ?kg"
    by code_simp
  then have k: "kg_query_with_explanation bad_cypher_env ?q ?cs1 = (Inr ?kg, ?cs2)"
    by (metis prod.collapse)
  have n: "\<not> kg_success ?kg" by simp
  from compare_short_circuit [OF q k n] q k show ?thesis
    by auto
qed

section \<open>Properties of the batch aggregation\<close>

lemma display_verdict_dict:
  "display_verdict j = Inr shown \<Longrightarrow> \<exists>d. j = VDict d"
  by (cases j)
     (auto simp: display_verdict_def py_contains_key_def py_index_str_def py_get_def bindE_def
           split: if_splits)

lemma compare_judged_shape:
  assumes "compare_with_judge E question cs = (Inr r, cs')"
  shows "judged_shape (cmp_judgment r)"
proof -
  from assms show ?thesis
    by (auto simp: compare_with_judge_def bindP_def returnP_def liftP_def judged_shape_def
          split: prod.splits sum.splits if_splits dest!: display_verdict_dict)
qed

lemma judge_all_judged_shape:
  "judge_all E questions cs = (Inr results, cs')
   \<Longrightarrow> list_all (\<lambda>r. judged_shape (cmp_judgment r)) results"
proof (induction questions arbitrary: cs results)
  case Nil
  then show ?case by (simp add: returnP_def)
next
  case (Cons question rest)
  from Cons.prems obtain r cs1 rs where
    c: "compare_with_judge E question cs = (Inr r, cs1)"
    and j: "judge_all E rest cs1 = (Inr rs, cs')"
    and res: "results = r # rs"
    by (auto simp: bindP_def returnP_def split: prod.splits sum.splits)
  from compare_judged_shape [OF c] Cons.IH [OF j] res show ?case by simp
qed

lemma accuracy_entry_shape:
  assumes "judged_shape (cmp_judgment r)"
  shows "accuracy_entry field r
           = Inr (if has_numeric_score field r then [score_value field r] else [])"
  using assms
  by (cases "cmp_judgment r")
     (auto simp: accuracy_entry_def judged_shape_def has_numeric_score_def score_value_def
           py_get_def bindE_def split: option.splits)

lemma accuracy_scores_shape:
  "list_all (\<lambda>r. judged_shape (cmp_judgment r)) results
   \<Longrightarrow> accuracy_scores field results = Inr (scored_values field results)"
  by (induction results) (auto simp: accuracy_entry_shape bindE_def scored_values_def)

lemma unscored_states:
  assumes "cmp_judgment r = VNone \<or> cmp_judgment r = VDict [(''error'', VStr m)]
           \<or> cmp_judgment r = VDict [(''raw_text'', VStr t)]"
  shows "\<not> has_numeric_score field r"
  using assms by (auto simp: has_numeric_score_def split: if_splits)

text \<open>
  Claim C7. For records as the batch loop returns them, the average of a side is the sum
  of the scores of the records that carry a numeric score of that side, divided by the
  number of those records (both lists must be non-empty for the averages to be printed).
  A record with no judgment, with an error judgment or with a raw-text judgment carries
  none: removing it from the batch leaves the list of scores unchanged, so it adds nothing
  to the sum and nothing to the divisor, and is not counted as a zero.
\<close>

theorem accuracy_mean_over_scored_judgments:
  assumes "list_all (\<lambda>r. judged_shape (cmp_judgment r)) results"
  shows "accuracy_summary results
           = Inr (if scored_values ''accuracy_score_a'' results \<noteq> []
                     \<and> scored_values ''accuracy_score_b'' results \<noteq> []
                  then Some (sum_list (scored_values ''accuracy_score_a'' results)
                               / of_nat (length (scored_values ''accuracy_score_a'' results)),
                             sum_list (scored_values ''accuracy_score_b'' results)
                               / of_nat (length (scored_values ''accuracy_score_b'' results)))
                  else None)
         \<and> (\<forall>field r m t before after.
               cmp_judgment r = VNone \<or> cmp_judgment r = VDict [(''error'', VStr m)]
               \<or> cmp_judgment r = VDict [(''raw_text'', VStr t)]
               \<longrightarrow> scored_values field (before @ r # after) = scored_values field (before @ after))"
proof
  show "accuracy_summary results
           = Inr (if scored_values ''accuracy_score_a'' results \<noteq> []
                     \<and> scored_values ''accuracy_score_b'' results \<noteq> []
                  then Some (sum_list (scored_values ''accuracy_score_a'' results)
                               / of_nat (length (scored_values ''accuracy_score_a'' results)),
                             sum_list (scored_values ''accuracy_score_b'' results)
                               / of_nat (length (scored_values ''accuracy_score_b'' results)))
                  else None)"
    using assms by (simp add: accuracy_summary_def accuracy_scores_shape bindE_def mean_def)
  show "\<forall>field r m t before after.
               cmp_judgment r = VNone \<or> cmp_judgment r = VDict [(''error'', VStr m)]
               \<or> cmp_judgment r = VDict [(''raw_text'', VStr t)]
               \<longrightarrow> scored_values field (before @ r # after) = scored_values field (before @ after)"
    using unscored_states by (auto simp: scored_values_def)
qed

text \<open>
  On the batch of five questions two records carry scores, 8 and 5 for RAG and 6 and 9 for
  the Knowledge Graph: the averages are 13/2 and 15/2, over two records each, where
  counting the three other records as zeros would give 13/5 and 3.
\<close>

theorem accuracy_mean_over_scored_judgments_witness:
  "\<exists>results.
      fst (judge_all batch_env batch_questions []) = Inr results
      \<and> length results = 5
      \<and> map cmp_judgment results
          = [judged_object, second_object, VDict [(''error'', VStr ''Request timed out'')],
             VDict [(''raw_text'', VStr ''System B is better.'')], VNone]
      \<and> list_all (\<lambda>r. judged_shape (cmp_judgment r)) results
      \<and> scored_values ''accuracy_score_a'' results = [8, 5]
      \<and> scored_values ''accuracy_score_b'' results = [6, 9]
      \<and> accuracy_summary results = Inr (Some (13 / 2, 15 / 2))"
proof -
  obtain x cs' where j: "judge_all batch_env batch_questions [] = (x, cs')"
    by (metis surj_pair)
  have m: "map_sum id (map cmp_judgment) (fst (judge_all batch_env batch_questions []))
        = Inr [judged_object, second_object, VDict [(''error'', VStr ''Request timed out'')],
               VDict [(''raw_text'', VStr ''System B is better.'')], VNone]"
    by code_simp
  with j obtain results where x: "x = Inr results"
    and mj: "map cmp_judgment results
          = [judged_object, second_object, VDict [(''error'', VStr ''Request timed out'')],
             VDict [(''raw_text'', VStr ''System B is better.'')], VNone]"
    by (cases x) auto
  from mj obtain r1 r2 r3 r4 r5 where rs: "results = [r1, r2, r3, r4, r5]"
    and r1: "cmp_judgment r1 = judged_object"
    and r2: "cmp_judgment r2 = second_object"
    and r3: "cmp_judgment r3 = VDict [(''error'', VStr ''Request timed out'')]"
    and r4: "cmp_judgment r4 = VDict [(''raw_text'', VStr ''System B is better.'')]"
    and r5: "cmp_judgment r5 = VNone"
    by auto
  have shape: "list_all (\<lambda>r. judged_shape (cmp_judgment r)) results"
    using rs r1 r2 r3 r4 r5 by (simp add: judged_shape_def judged_object_def second_object_def)
  have a: "scored_values ''accuracy_score_a'' results = [8, 5]"
    using rs r1 r2 r3 r4 r5
    by (simp add: scored_values_def has_numeric_score_def score_value_def judged_object_def
          second_object_def)
  have b: "scored_values ''accuracy_score_b'' results = [6, 9]"
    using rs r1 r2 r3 r4 r5
    by (simp add: scored_values_def has_numeric_score_def score_value_def judged_object_def
          second_object_def)
  from accuracy_mean_over_scored_judgments [OF shape] a b
  have "accuracy_summary results = Inr (Some (13 / 2, 15 / 2))"
    by simp
  with j x mj shape a b rs show ?thesis by auto
qed


lemma winner_name_table:
  "winner_name (VStr ''A'') = Inr ''RAG''"
  "winner_name (VStr ''B'') = Inr ''KG''"
  "winner_name (VStr ''TIE'') = Inr ''TIE''"
  by (simp_all add: winner_name_def)







text \<open>
  A question whose KG branch fails is recorded with the winner \<^verbatim>\<open>RAG\<close>, which none of
  the three counters of the batch counts and which the listing shows as \<^verbatim>\<open>?\<close>.
\<close>

lemma kg_failure_not_counted:
  "map_sum id (\<lambda>p. (map cmp_winner (fst p), rag_wins (snd p), kg_wins (snd p), ties (snd p),
                     listing (snd p)))
     (fst (batch_judge_questions bad_cypher_env [''Who wrote it?''] []))
     = Inr ([VStr ''RAG''], 0, 0, 0, [''?''])"
  by code_simp

end
